theory Spec2Isabelle
  imports Main "HOL-Library.Word" "HOL-Library.AList"
begin

unbundle bit_operations_syntax

section \<open>The todo service of \<^verbatim>\<open>main.go\<close>\<close>

text \<open>
  The service is a set of HTTP handlers over one MongoDB collection. The handlers are
  embedded as functions from the request and the store to an outcome and the new store.
  What the handlers obtain from outside (the clock, the id generator, the outcome of the
  store round trip, the library decoders whose rules the handlers do not fix) is read from
  an environment record, one per request.
\<close>

subsection \<open>Object identifiers (\<^verbatim>\<open>primitive.ObjectID\<close>, a \<^verbatim>\<open>[12]byte\<close>)\<close>

type_synonym ObjectID = "96 word"

definition NilObjectID :: ObjectID where
  "NilObjectID = 0"

text \<open>\<^verbatim>\<open>hex.Decode\<close> accepts the digits and the letters a-f in both cases.\<close>

definition fromHexChar :: "char \<Rightarrow> nat option" where
  "fromHexChar c =
     (let n = (of_char c :: nat) in
      if 48 \<le> n \<and> n \<le> 57 then Some (n - 48)
      else if 97 \<le> n \<and> n \<le> 102 then Some (n - 97 + 10)
      else if 65 \<le> n \<and> n \<le> 70 then Some (n - 65 + 10)
      else None)"

text \<open>
  The digits are shifted into the twelve bytes from the left, four bits per character, as
  \<^verbatim>\<open>hex.Decode\<close> fills each byte with \<^verbatim>\<open>(a << 4) | b\<close>.
\<close>

fun decodeHex :: "string \<Rightarrow> ObjectID \<Rightarrow> ObjectID option" where
  "decodeHex [] acc = Some acc"
| "decodeHex (c # cs) acc =
     (case fromHexChar c of
        None \<Rightarrow> None
      | Some d \<Rightarrow> decodeHex cs (16 * acc + word_of_nat d))"

text \<open>
  \<^verbatim>\<open>ObjectIDFromHex\<close>: the string must have 24 characters, all of them hexadecimal;
  \<open>None\<close> is the error return.
\<close>

definition ObjectIDFromHex :: "string \<Rightarrow> ObjectID option" where
  "ObjectIDFromHex s = (if length s \<noteq> 24 then None else decodeHex s 0)"

text \<open>\<^verbatim>\<open>IsValidObjectID\<close> is \<^verbatim>\<open>ObjectIDFromHex\<close> returning no error.\<close>

definition IsValidObjectID :: "string \<Rightarrow> bool" where
  "IsValidObjectID s = (case ObjectIDFromHex s of None \<Rightarrow> False | Some _ \<Rightarrow> True)"

definition hextable :: string where
  "hextable = ''0123456789abcdef''"

text \<open>
  \<^verbatim>\<open>ObjectID.Hex\<close>: two lower-case digits per byte, the first byte first. The index
  into \<open>hextable\<close> is masked to four bits, so it is always in range.
\<close>

definition Hex :: "ObjectID \<Rightarrow> string" where
  "Hex w = map (\<lambda>i. hextable ! unat (drop_bit (4 * (23 - i)) w AND 15)) [0..<24]"

subsection \<open>The two record shapes\<close>

text \<open>
  \<^verbatim>\<open>time.Time\<close> is kept as nanoseconds since the Unix epoch. A BSON DateTime holds
  milliseconds.
\<close>

type_synonym Time = int

definition zeroTime :: Time where
  "zeroTime = - 62135596800000000000"

record todoModel =
  ID :: ObjectID
  Title :: string
  Completed :: bool
  CreatedAt :: Time

record todo =
  ID :: string
  Title :: string
  Completed :: string
  CreatedAt :: Time

text \<open>The zero value of \<^verbatim>\<open>var t todo\<close>.\<close>

definition zeroTodo :: todo where
  "zeroTodo = \<lparr> todo.ID = [], todo.Title = [], todo.Completed = [],
                todo.CreatedAt = zeroTime \<rparr>"

subsection \<open>Errors\<close>

text \<open>
  Go errors are values; their text (\<^verbatim>\<open>err.Error()\<close>) is not spelled out. A nil error is
  \<open>None\<close>. \<open>UnmarshalTypeError\<close> carries the tag of the field that could not be
  stored (empty when the body as a whole is not an object).
\<close>

datatype go_error =
    SyntaxError
  | UnmarshalTypeError string
  | TimeUnmarshalError
  | StoreError string
  | DuplicateKeyError

subsection \<open>BSON documents and the collection\<close>

datatype bson =
    BObjectID ObjectID
  | BString string
  | BBoolean bool
  | BDateTime int

type_synonym document = "(string \<times> bson) list"

text \<open>
  Marshalling a \<^verbatim>\<open>todoModel\<close> follows its \<^verbatim>\<open>bson\<close> tags; \<^verbatim>\<open>_id\<close> is
  \<^verbatim>\<open>omitempty\<close>, so the nil id is left out. A Go \<^verbatim>\<open>bool\<close> becomes a BSON boolean, a
  \<^verbatim>\<open>time.Time\<close> a DateTime in milliseconds.
\<close>

definition marshalTodoModel :: "todoModel \<Rightarrow> document" where
  "marshalTodoModel tm =
     (if todoModel.ID tm = NilObjectID then [] else [(''_id'', BObjectID (todoModel.ID tm))])
     @ [(''title'', BString (todoModel.Title tm)),
        (''completed'', BBoolean (todoModel.Completed tm)),
        (''createAt'', BDateTime (todoModel.CreatedAt tm div 1000000))]"

text \<open>
  The store is the collection, in insertion order, and the log of the round trips made to
  it. Every call to the driver appends to the log, whether it succeeds or not. A round
  trip that returns an error is taken to leave the collection as it was.
\<close>

datatype store_call =
    CallFind
  | CallInsertOne document
  | CallDeleteOne document
  | CallUpdateOne document document

record store =
  docs :: "document list"
  calls :: "store_call list"

record InsertOneResult =
  InsertedID :: bson

record DeleteResult =
  DeletedCount :: nat

record UpdateResult =
  MatchedCount :: nat

text \<open>
  The environment of one request. \<open>storeErr\<close> is the error of the store round trip
  (connection failure, timeout), \<open>None\<close> when the round trip succeeds. \<open>driverObjectID\<close>
  is the id the driver generates for a document inserted without \<^verbatim>\<open>_id\<close>.
  \<open>parseTime\<close> is \<^verbatim>\<open>time.Time.UnmarshalJSON\<close> on the content of a JSON string, and
  \<open>cursorAll\<close> is \<^verbatim>\<open>cursor.All\<close> decoding the found documents into
  \<^verbatim>\<open>[]todoModel\<close>.
\<close>

record env =
  now :: Time
  newObjectID :: ObjectID
  driverObjectID :: ObjectID
  storeErr :: "go_error option"
  parseTime :: "string \<Rightarrow> Time option"
  cursorAll :: "document list \<Rightarrow> go_error + todoModel list"

text \<open>A filter \<^verbatim>\<open>bson.M{k: v}\<close> matches a document that holds \<open>v\<close> under \<open>k\<close>.\<close>

definition matches :: "document \<Rightarrow> document \<Rightarrow> bool" where
  "matches flt d = list_all (\<lambda>kv. map_of d (fst kv) = Some (snd kv)) flt"

text \<open>\<^verbatim>\<open>$set\<close> overwrites the named fields and leaves every other field as it is.\<close>

definition applySet :: "document \<Rightarrow> document \<Rightarrow> document" where
  "applySet upd d = fold (\<lambda>kv. AList.update (fst kv) (snd kv)) upd d"

fun deleteFirst :: "(document \<Rightarrow> bool) \<Rightarrow> document list \<Rightarrow> document list \<times> nat" where
  "deleteFirst p [] = ([], 0)"
| "deleteFirst p (d # ds) =
     (if p d then (ds, 1)
      else (case deleteFirst p ds of (ds', n) \<Rightarrow> (d # ds', n)))"

fun updateFirst ::
  "(document \<Rightarrow> bool) \<Rightarrow> (document \<Rightarrow> document) \<Rightarrow> document list \<Rightarrow> document list \<times> nat" where
  "updateFirst p f [] = ([], 0)"
| "updateFirst p f (d # ds) =
     (if p d then (f d # ds, 1)
      else (case updateFirst p f ds of (ds', n) \<Rightarrow> (d # ds', n)))"

text \<open>
  \<^verbatim>\<open>collection.Find(ctx, bson.M{})\<close>: every document, or the error of the round trip.
\<close>

definition Find :: "env \<Rightarrow> store \<Rightarrow> document list \<times> go_error option \<times> store" where
  "Find e st =
     (let st' = st\<lparr>calls := calls st @ [CallFind]\<rparr> in
      case storeErr e of
        Some err \<Rightarrow> ([], Some err, st')
      | None \<Rightarrow> (docs st, None, st'))"

text \<open>
  \<^verbatim>\<open>collection.InsertOne\<close>: the driver adds an \<^verbatim>\<open>_id\<close> to a document that has none,
  and the server refuses an \<^verbatim>\<open>_id\<close> that the collection already holds.
\<close>

definition InsertOne ::
  "env \<Rightarrow> store \<Rightarrow> document \<Rightarrow> InsertOneResult \<times> go_error option \<times> store" where
  "InsertOne e st d =
     (let st' = st\<lparr>calls := calls st @ [CallInsertOne d]\<rparr>;
          idv = (case map_of d ''_id'' of Some v \<Rightarrow> v | None \<Rightarrow> BObjectID (driverObjectID e));
          d' = (case map_of d ''_id'' of Some v \<Rightarrow> d | None \<Rightarrow> (''_id'', idv) # d)
      in case storeErr e of
           Some err \<Rightarrow> (\<lparr>InsertedID = idv\<rparr>, Some err, st')
         | None \<Rightarrow>
             if list_ex (\<lambda>x. map_of x ''_id'' = Some idv) (docs st)
             then (\<lparr>InsertedID = idv\<rparr>, Some DuplicateKeyError, st')
             else (\<lparr>InsertedID = idv\<rparr>, None, st'\<lparr>docs := docs st @ [d']\<rparr>))"

text \<open>\<^verbatim>\<open>collection.DeleteOne\<close> removes the first document that matches the filter.\<close>

definition DeleteOne ::
  "env \<Rightarrow> store \<Rightarrow> document \<Rightarrow> DeleteResult \<times> go_error option \<times> store" where
  "DeleteOne e st flt =
     (let st' = st\<lparr>calls := calls st @ [CallDeleteOne flt]\<rparr> in
      case storeErr e of
        Some err \<Rightarrow> (\<lparr>DeletedCount = 0\<rparr>, Some err, st')
      | None \<Rightarrow>
          (case deleteFirst (matches flt) (docs st) of
             (ds, n) \<Rightarrow> (\<lparr>DeletedCount = n\<rparr>, None, st'\<lparr>docs := ds\<rparr>)))"

text \<open>
  \<^verbatim>\<open>collection.UpdateOne\<close> with the update \<^verbatim>\<open>bson.M{"$set": upd}\<close>: the first
  document that matches the filter gets the fields set.
\<close>

definition UpdateOne ::
  "env \<Rightarrow> store \<Rightarrow> document \<Rightarrow> document \<Rightarrow> UpdateResult \<times> go_error option \<times> store" where
  "UpdateOne e st flt upd =
     (let st' = st\<lparr>calls := calls st @ [CallUpdateOne flt upd]\<rparr> in
      case storeErr e of
        Some err \<Rightarrow> (\<lparr>MatchedCount = 0\<rparr>, Some err, st')
      | None \<Rightarrow>
          (case updateFirst (matches flt) (applySet upd) (docs st) of
             (ds, n) \<Rightarrow> (\<lparr>MatchedCount = n\<rparr>, None, st'\<lparr>docs := ds\<rparr>)))"

subsection \<open>Decoding a request body into \<^verbatim>\<open>todo\<close>\<close>

text \<open>
  The body as \<^verbatim>\<open>encoding/json\<close> scans it: \<open>None\<close> when the body has no well-formed
  JSON value at its start, the value otherwise. An object keeps its members in order,
  duplicates included.
\<close>

datatype json =
    JNull
  | JBool bool
  | JNumber string
  | JString string
  | JArray "json list"
  | JObject "(string \<times> json) list"

datatype field = FID | FTitle | FCompleted | FCreatedAt

text \<open>The \<^verbatim>\<open>json\<close> tag of each field of \<^verbatim>\<open>todo\<close>.\<close>

definition fieldName :: "field \<Rightarrow> string" where
  "fieldName f =
     (case f of
        FID \<Rightarrow> ''id''
      | FTitle \<Rightarrow> ''title''
      | FCompleted \<Rightarrow> ''completed''
      | FCreatedAt \<Rightarrow> ''created_at'')"

definition toLower :: "char \<Rightarrow> char" where
  "toLower c =
     (case map_of (zip ''ABCDEFGHIJKLMNOPQRSTUVWXYZ'' ''abcdefghijklmnopqrstuvwxyz'') c of
        Some l \<Rightarrow> l
      | None \<Rightarrow> c)"

text \<open>
  A member's key selects the first field whose tag it equals, letter case ignored (the
  tags are in lower case and differ from each other, so the exact match that the decoder
  tries first selects the same field). Any other key is skipped.
\<close>

definition fieldOf :: "string \<Rightarrow> field option" where
  "fieldOf key =
     find (\<lambda>f. fieldName f = map toLower key) [FID, FTitle, FCompleted, FCreatedAt]"

definition setString :: "field \<Rightarrow> string \<Rightarrow> todo \<Rightarrow> todo" where
  "setString f s t =
     (case f of
        FID \<Rightarrow> t\<lparr>todo.ID := s\<rparr>
      | FTitle \<Rightarrow> t\<lparr>todo.Title := s\<rparr>
      | FCompleted \<Rightarrow> t\<lparr>todo.Completed := s\<rparr>
      | FCreatedAt \<Rightarrow> t)"

definition saveError :: "go_error option \<Rightarrow> go_error \<Rightarrow> go_error option" where
  "saveError saved e = (case saved of None \<Rightarrow> Some e | Some e0 \<Rightarrow> Some e0)"

text \<open>
  The members are stored in order. A string field takes a JSON string; \<^verbatim>\<open>null\<close> has
  no effect; any other value is a type error, which is saved (the first one is kept)
  while decoding goes on. \<^verbatim>\<open>created_at\<close> is a \<^verbatim>\<open>time.Time\<close>, which unmarshals
  itself: \<^verbatim>\<open>null\<close> has no effect, and its error ends the decoding at once.
\<close>

fun decodeMembers ::
  "(string \<Rightarrow> Time option) \<Rightarrow> (string \<times> json) list \<Rightarrow> todo \<Rightarrow> go_error option
     \<Rightarrow> go_error + todo" where
  "decodeMembers pt [] t saved =
     (case saved of None \<Rightarrow> Inr t | Some e \<Rightarrow> Inl e)"
| "decodeMembers pt ((k, v) # ms) t saved =
     (case fieldOf k of
        None \<Rightarrow> decodeMembers pt ms t saved
      | Some FCreatedAt \<Rightarrow>
          (case v of
             JNull \<Rightarrow> decodeMembers pt ms t saved
           | JString s \<Rightarrow>
               (case pt s of
                  None \<Rightarrow> Inl TimeUnmarshalError
                | Some tm \<Rightarrow> decodeMembers pt ms (t\<lparr>todo.CreatedAt := tm\<rparr>) saved)
           | _ \<Rightarrow> Inl TimeUnmarshalError)
      | Some f \<Rightarrow>
          (case v of
             JNull \<Rightarrow> decodeMembers pt ms t saved
           | JString s \<Rightarrow> decodeMembers pt ms (setString f s t) saved
           | _ \<Rightarrow> decodeMembers pt ms t (saveError saved (UnmarshalTypeError (fieldName f)))))"

text \<open>
  \<^verbatim>\<open>json.NewDecoder(r.Body).Decode(&t)\<close>: a top-level \<^verbatim>\<open>null\<close> leaves \<open>t\<close> as it
  is, an object is stored member by member, any other value is a type error.
\<close>

definition Decode :: "(string \<Rightarrow> Time option) \<Rightarrow> json option \<Rightarrow> todo \<Rightarrow> go_error + todo" where
  "Decode pt body t =
     (case body of
        None \<Rightarrow> Inl SyntaxError
      | Some JNull \<Rightarrow> Inr t
      | Some (JObject ms) \<Rightarrow> decodeMembers pt ms t None
      | Some _ \<Rightarrow> Inl (UnmarshalTypeError []))"

subsection \<open>Responses\<close>

text \<open>
  A value of a \<^verbatim>\<open>renderer.M\<close> envelope, before its JSON encoding: a Go string, the
  text of an error, the inserted id, or the list of views.
\<close>

datatype gval =
    GString string
  | GErrorText go_error
  | GInsertedID bson
  | GTodoList "todo list"

type_synonym envelope = "(string \<times> gval) list"

text \<open>
  A handler either writes a response with \<^verbatim>\<open>rnd.JSON\<close> or panics before writing
  anything.
\<close>

datatype outcome = Response nat envelope | Panic

definition StatusOK :: nat where
  "StatusOK = 200"

definition StatusCreated :: nat where
  "StatusCreated = 201"

definition StatusBadRequest :: nat where
  "StatusBadRequest = 400"

subsection \<open>The handlers\<close>

definition FormatBool :: "bool \<Rightarrow> string" where
  "FormatBool b = (if b then ''true'' else ''false'')"

definition toView :: "todoModel \<Rightarrow> todo" where
  "toView t =
     \<lparr> todo.ID = Hex (todoModel.ID t),
       todo.Title = todoModel.Title t,
       todo.Completed = FormatBool (todoModel.Completed t),
       todo.CreatedAt = todoModel.CreatedAt t \<rparr>"

text \<open>The loop of \<^verbatim>\<open>fetchTodos\<close> appends one view per decoded record.\<close>

definition todoList :: "todoModel list \<Rightarrow> todo list" where
  "todoList todos = foldl (\<lambda>acc t. acc @ [toView t]) [] todos"

definition fetchTodos :: "env \<Rightarrow> store \<Rightarrow> outcome \<times> store" where
  "fetchTodos e st =
     (case Find e st of
        (cursor, Some err, st') \<Rightarrow>
          (Response StatusBadRequest
             [(''message'', GString ''could not fetch todos''), (''error'', GErrorText err)], st')
      | (cursor, None, st') \<Rightarrow>
          (case cursorAll e cursor of
             Inl err \<Rightarrow>
               (Response StatusBadRequest
                  [(''message'', GString ''could not decode todos''), (''error'', GErrorText err)],
                st')
           | Inr todos \<Rightarrow>
               (Response StatusOK [(''data'', GTodoList (todoList todos))], st')))"

definition createTodo :: "env \<Rightarrow> json option \<Rightarrow> store \<Rightarrow> outcome \<times> store" where
  "createTodo e body st =
     (case Decode (parseTime e) body zeroTodo of
        Inl err \<Rightarrow>
          (Response StatusBadRequest
             [(''message'', GString ''invalid request''), (''error'', GErrorText err)], st)
      | Inr t \<Rightarrow>
          if todo.Title t = [] then
            (Response StatusBadRequest
               [(''message'', GString ''title is required''), (''error'', GString ''bad request'')],
             st)
          else
            (let tm = \<lparr> todoModel.ID = newObjectID e,
                        todoModel.Title = todo.Title t,
                        todoModel.Completed = False,
                        todoModel.CreatedAt = now e \<rparr>
             in case InsertOne e st (marshalTodoModel tm) of
                  (res, Some err, st') \<Rightarrow>
                    (Response StatusBadRequest
                       [(''message'', GString ''could not create todo''),
                        (''error'', GErrorText err)], st')
                | (res, None, st') \<Rightarrow>
                    (Response StatusCreated
                       [(''message'', GString ''todo created successfully''),
                        (''todo_id'', GInsertedID (InsertedID res))], st')))"

text \<open>
  In \<^verbatim>\<open>deleteTodo\<close> and \<^verbatim>\<open>updateTodo\<close> the failure branch is taken when the error is
  not nil or the count is zero, and the envelope of that branch calls
  \<^verbatim>\<open>err.Error()\<close>: on a nil error this is a nil dereference, a panic raised while the
  arguments of \<^verbatim>\<open>rnd.JSON\<close> are evaluated.
\<close>

text \<open>The path parameter \<^verbatim>\<open>id\<close> is written \<open>id'\<close>.\<close>

definition deleteTodo :: "env \<Rightarrow> string \<Rightarrow> store \<Rightarrow> outcome \<times> store" where
  "deleteTodo e id' st =
     (if \<not> IsValidObjectID id' then
        (Response StatusBadRequest
           [(''message'', GString ''invalid id''), (''error'', GString ''bad request'')], st)
      else
        (let objID = (case ObjectIDFromHex id' of Some w \<Rightarrow> w | None \<Rightarrow> NilObjectID) in
         case DeleteOne e st [(''_id'', BObjectID objID)] of
           (res, err, st') \<Rightarrow>
             if err \<noteq> None \<or> DeletedCount res = 0 then
               (case err of
                  None \<Rightarrow> (Panic, st')
                | Some er \<Rightarrow>
                    (Response StatusBadRequest
                       [(''message'', GString ''could not delete todo''),
                        (''error'', GErrorText er)], st'))
             else
               (Response StatusOK [(''message'', GString ''todo deleted successfully'')], st')))"

definition updateTodo :: "env \<Rightarrow> string \<Rightarrow> json option \<Rightarrow> store \<Rightarrow> outcome \<times> store" where
  "updateTodo e id' body st =
     (if \<not> IsValidObjectID id' then
        (Response StatusBadRequest
           [(''message'', GString ''invalid id''), (''error'', GString ''bad request'')], st)
      else
        (case Decode (parseTime e) body zeroTodo of
           Inl err \<Rightarrow>
             (Response StatusBadRequest
                [(''message'', GString ''invalid request''), (''error'', GErrorText err)], st)
         | Inr t \<Rightarrow>
             (let objID = (case ObjectIDFromHex id' of Some w \<Rightarrow> w | None \<Rightarrow> NilObjectID);
                  upd = [(''title'', BString (todo.Title t)),
                         (''completed'', BString (todo.Completed t))]
              in case UpdateOne e st [(''_id'', BObjectID objID)] upd of
                   (res, err, st') \<Rightarrow>
                     if err \<noteq> None \<or> MatchedCount res = 0 then
                       (case err of
                          None \<Rightarrow> (Panic, st')
                        | Some er \<Rightarrow>
                            (Response StatusBadRequest
                               [(''message'', GString ''could not update todo''),
                                (''error'', GErrorText er)], st'))
                     else
                       (Response StatusOK
                          [(''message'', GString ''todo updated successfully'')], st'))))"

subsection \<open>Start-up and shutdown\<close>

text \<open>
  The calls \<^verbatim>\<open>init\<close> and \<^verbatim>\<open>main\<close> make, in program order. \<open>Shutdown\<close> carries the
  timeout of its context in seconds.
\<close>

datatype event =
    Connect
  | Ping
  | Fatal string
  | Log string
  | GoListenAndServe
  | AwaitInterrupt
  | Disconnect
  | Shutdown nat

text \<open>
  \<^verbatim>\<open>init\<close>: \<open>Inl\<close> is the process exiting in \<^verbatim>\<open>log.Fatalf\<close>; \<open>Inr\<close> holds whether
  the global \<^verbatim>\<open>client\<close> is set, which it is once \<^verbatim>\<open>mongo.Connect\<close> has returned no
  error.
\<close>

definition init :: "bool \<Rightarrow> bool \<Rightarrow> event list + (bool \<times> event list)" where
  "init connectOk pingOk =
     (if \<not> connectOk then Inl [Connect, Fatal ''Failed to connect to MongoDB'']
      else if \<not> pingOk then Inl [Connect, Ping, Fatal ''Failed to ping MongoDB'']
      else Inr (True, [Connect, Ping, Log ''Successfully connected to MongoDB'']))"

definition main :: "bool \<Rightarrow> event list" where
  "main client =
     [GoListenAndServe, AwaitInterrupt, Log ''shutting down server...'']
     @ (if client then [Disconnect, Log ''Closed MongoDB connection''] else [])
     @ [Shutdown 5, Log ''server gracefully stopped'']"

definition program :: "bool \<Rightarrow> bool \<Rightarrow> event list" where
  "program connectOk pingOk =
     (case init connectOk pingOk of
        Inl evs \<Rightarrow> evs
      | Inr (client, evs) \<Rightarrow> evs @ main client)"

subsection \<open>An example environment and store\<close>

text \<open>
  The decoder of the example environment takes under each field the kind that
  \<^verbatim>\<open>todoModel\<close> declares and a missing field as the zero value of its Go type. A
  field of another kind is refused; the driver converts some kinds beside these, none of
  which this service writes under that field, and it refuses, as here, a string under
  \<^verbatim>\<open>completed\<close>.
\<close>

definition decodeDoc :: "document \<Rightarrow> go_error + todoModel" where
  "decodeDoc d =
     (case (case map_of d ''_id'' of
              None \<Rightarrow> Some NilObjectID | Some (BObjectID i) \<Rightarrow> Some i | Some _ \<Rightarrow> None,
            case map_of d ''title'' of
              None \<Rightarrow> Some [] | Some (BString s) \<Rightarrow> Some s | Some _ \<Rightarrow> None,
            case map_of d ''completed'' of
              None \<Rightarrow> Some False | Some (BBoolean c) \<Rightarrow> Some c | Some _ \<Rightarrow> None,
            case map_of d ''createAt'' of
              None \<Rightarrow> Some zeroTime | Some (BDateTime ms) \<Rightarrow> Some (ms * 1000000)
            | Some _ \<Rightarrow> None) of
        (Some i, Some s, Some c, Some tm) \<Rightarrow>
          Inr \<lparr> todoModel.ID = i, todoModel.Title = s, todoModel.Completed = c,
                todoModel.CreatedAt = tm \<rparr>
      | _ \<Rightarrow> Inl (StoreError ''cannot decode''))"

fun decodeAll :: "document list \<Rightarrow> go_error + todoModel list" where
  "decodeAll [] = Inr []"
| "decodeAll (d # ds) =
     (case decodeDoc d of
        Inl e \<Rightarrow> Inl e
      | Inr t \<Rightarrow> (case decodeAll ds of Inl e \<Rightarrow> Inl e | Inr ts \<Rightarrow> Inr (t # ts)))"

definition env0 :: env where
  "env0 = \<lparr> now = 1700000000123456789,
            newObjectID = 0x65a1b2c3d4e5f60718293a4d,
            driverObjectID = 0x65a1b2c3d4e5f60718293a4e,
            storeErr = None,
            parseTime =
              (\<lambda>s. if s = ''2023-11-14T22:13:20Z'' then Some 1700000000000000000 else None),
            cursorAll = decodeAll \<rparr>"

definition st0 :: store where
  "st0 = \<lparr> docs = [], calls = [] \<rparr>"

definition doc1 :: document where
  "doc1 = [(''_id'', BObjectID 0x65a1b2c3d4e5f60718293a4b), (''title'', BString ''buy milk''),
           (''completed'', BBoolean False), (''createAt'', BDateTime 1700000000123)]"

definition doc1u :: document where
  "doc1u = [(''_id'', BObjectID 0x65a1b2c3d4e5f60718293a4b), (''title'', BString ''buy milk''),
            (''completed'', BString ''true''), (''createAt'', BDateTime 1700000000123)]"

definition doc2 :: document where
  "doc2 = [(''_id'', BObjectID 0x65a1b2c3d4e5f60718293a4a), (''title'', BString ''walk dog''),
           (''completed'', BBoolean True), (''createAt'', BDateTime 1700000000001)]"

text \<open>
  A store that holds two records: \<open>id1\<close> is the id of the second, \<open>idAbsent\<close> is
  well formed and the id of none, \<open>badId\<close> has 23 characters.
\<close>

definition st1 :: store where
  "st1 = \<lparr> docs = [doc2, doc1], calls = [] \<rparr>"

definition id1 :: string where
  "id1 = ''65a1b2c3d4e5f60718293a4b''"

definition idAbsent :: string where
  "idAbsent = ''65A1B2C3D4E5F60718293A4F''"

definition badId :: string where
  "badId = ''65a1b2c3d4e5f60718293a4''"

text \<open>The bodies of the scenario, and the same with other values under \<^verbatim>\<open>completed\<close>.\<close>

definition milk :: "json option" where
  "milk = Some (JObject [(''title'', JString ''buy milk'')])"

definition milkDone :: "json option" where
  "milkDone = Some (JObject [(''title'', JString ''buy milk''), (''completed'', JBool True)])"

definition milkDoneStr :: "json option" where
  "milkDoneStr =
     Some (JObject [(''title'', JString ''buy milk''), (''completed'', JString ''true'')])"

definition milkNull :: "json option" where
  "milkNull = Some (JObject [(''title'', JString ''buy milk''), (''completed'', JNull)])"

definition milkSwapped :: "(string \<times> json) list" where
  "milkSwapped = [(''Completed'', JString ''true''), (''title'', JString ''buy milk'')]"

definition doneOnly :: "(string \<times> json) list" where
  "doneOnly = [(''completed'', JBool True)]"

text \<open>An environment whose store round trip fails.\<close>

definition envDown :: env where
  "envDown = env0\<lparr> storeErr := Some (StoreError ''context deadline exceeded'') \<rparr>"

text \<open>
  The record that \<open>env0\<close> creates for these bodies, the store after creating it in the
  empty store, and both after an update of it with \<open>milkDoneStr\<close>.
\<close>

definition idNew :: string where
  "idNew = ''65a1b2c3d4e5f60718293a4d''"

definition docNew :: document where
  "docNew = [(''_id'', BObjectID 0x65a1b2c3d4e5f60718293a4d), (''title'', BString ''buy milk''),
             (''completed'', BBoolean False), (''createAt'', BDateTime 1700000000123)]"

definition docNewU :: document where
  "docNewU = [(''_id'', BObjectID 0x65a1b2c3d4e5f60718293a4d), (''title'', BString ''buy milk''),
              (''completed'', BString ''true''), (''createAt'', BDateTime 1700000000123)]"

definition stC :: store where
  "stC = \<lparr> docs = [docNew], calls = [CallInsertOne docNew] \<rparr>"

definition stU :: store where
  "stU = \<lparr> docs = [docNewU],
           calls = [CallInsertOne docNew,
                    CallUpdateOne [(''_id'', BObjectID 0x65a1b2c3d4e5f60718293a4d)]
                      [(''title'', BString ''buy milk''), (''completed'', BString ''true'')]] \<rparr>"

section \<open>Properties\<close>

subsection \<open>Auxiliary facts\<close>

lemma ObjectIDFromHex_id1: "ObjectIDFromHex id1 = Some 0x65a1b2c3d4e5f60718293a4b"
  by (simp add: ObjectIDFromHex_def id1_def fromHexChar_def)

lemma ObjectIDFromHex_idAbsent: "ObjectIDFromHex idAbsent = Some 0x65a1b2c3d4e5f60718293a4f"
  by (simp add: ObjectIDFromHex_def idAbsent_def fromHexChar_def)

lemma ObjectIDFromHex_idNew: "ObjectIDFromHex idNew = Some 0x65a1b2c3d4e5f60718293a4d"
  by (simp add: ObjectIDFromHex_def idNew_def fromHexChar_def)

lemma IsValid_id1: "IsValidObjectID id1"
  by (simp add: IsValidObjectID_def ObjectIDFromHex_id1)

lemma not_valid_badId: "\<not> IsValidObjectID badId"
  by (simp add: IsValidObjectID_def ObjectIDFromHex_def badId_def)

lemma length_Hex: "length (Hex w) = 24"
  by (simp add: Hex_def)

lemma Hex_nonempty: "Hex w \<noteq> []"
proof
  assume "Hex w = []"
  then have "length (Hex w) = 0" by simp
  then show False by (simp add: length_Hex)
qed

lemma env0_fields:
  "storeErr env0 = None"
  "newObjectID env0 = 0x65a1b2c3d4e5f60718293a4d"
  "now env0 = 1700000000123456789"
  "cursorAll env0 = decodeAll"
  by (simp_all add: env0_def)

lemma matches_id: "matches [(''_id'', v)] d = (map_of d ''_id'' = Some v)"
  by (simp add: matches_def)

lemma fieldOf_title: "fieldOf ''title'' = Some FTitle"
  by (simp add: fieldOf_def toLower_def fieldName_def)

lemma fieldOf_completed: "fieldOf ''completed'' = Some FCompleted"
  by (simp add: fieldOf_def toLower_def fieldName_def)

lemma Decode_string_body:
  "Decode pt (Some (JObject [(''title'', JString ti), (''completed'', JString c)])) zeroTodo
     = Inr (zeroTodo\<lparr>todo.Title := ti, todo.Completed := c\<rparr>)"
  by (simp add: Decode_def fieldOf_title fieldOf_completed setString_def)

lemma Decode_bool_body:
  "Decode pt (Some (JObject [(''title'', JString ti), (''completed'', JBool b)])) zeroTodo
     = Inl (UnmarshalTypeError ''completed'')"
  by (simp add: Decode_def fieldOf_title fieldOf_completed setString_def saveError_def
      fieldName_def)

lemma Decode_milk: "Decode pt milk zeroTodo = Inr (zeroTodo\<lparr>todo.Title := ''buy milk''\<rparr>)"
  by (simp add: Decode_def milk_def fieldOf_title setString_def)

lemma Decode_milkNull:
  "Decode pt milkNull zeroTodo = Inr (zeroTodo\<lparr>todo.Title := ''buy milk''\<rparr>)"
  by (simp add: Decode_def milkNull_def fieldOf_title fieldOf_completed setString_def)

lemma Decode_milkDoneStr:
  "Decode pt milkDoneStr zeroTodo
     = Inr (zeroTodo\<lparr>todo.Title := ''buy milk'', todo.Completed := ''true''\<rparr>)"
  by (simp add: milkDoneStr_def Decode_string_body)

lemma Decode_milkDone: "Decode pt milkDone zeroTodo = Inl (UnmarshalTypeError ''completed'')"
  by (simp add: milkDone_def Decode_bool_body)

text \<open>The store operations on a collection without a match, and on one with a match.\<close>

lemma deleteFirst_none: "\<not> list_ex p ds \<Longrightarrow> deleteFirst p ds = (ds, 0)"
  by (induction ds) simp_all

lemma updateFirst_none: "\<not> list_ex p ds \<Longrightarrow> updateFirst p f ds = (ds, 0)"
  by (induction ds) simp_all

lemma updateFirst_spec:
  "updateFirst p f ds = (ds', n) \<Longrightarrow>
     (n = 0 \<and> ds' = ds \<and> \<not> list_ex p ds)
   \<or> (n = 1 \<and> (\<exists>i < length ds. p (ds ! i) \<and> (\<forall>j < i. \<not> p (ds ! j))
                   \<and> ds' = ds[i := f (ds ! i)]))"
proof (induction ds arbitrary: ds' n)
  case Nil
  then show ?case by simp
next
  case (Cons d ds)
  show ?case
  proof (cases "p d")
    case True
    with Cons.prems have "n = 1" "ds' = f d # ds" by simp_all
    then have "0 < length (d # ds) \<and> p ((d # ds) ! 0) \<and> (\<forall>j < 0. \<not> p ((d # ds) ! j))
        \<and> ds' = (d # ds)[0 := f ((d # ds) ! 0)]"
      using True by simp
    then show ?thesis using \<open>n = 1\<close> by blast
  next
    case False
    obtain es m where r: "updateFirst p f ds = (es, m)" by (cases "updateFirst p f ds")
    with Cons.prems False have eq: "n = m" "ds' = d # es" by simp_all
    from Cons.IH [OF r] show ?thesis
    proof
      assume "m = 0 \<and> es = ds \<and> \<not> list_ex p ds"
      then show ?thesis using eq False by simp
    next
      assume "m = 1 \<and> (\<exists>i<length ds. p (ds ! i) \<and> (\<forall>j<i. \<not> p (ds ! j))
                \<and> es = ds[i := f (ds ! i)])"
      then obtain i where i: "m = 1" "i < length ds" "p (ds ! i)" "\<forall>j<i. \<not> p (ds ! j)"
        "es = ds[i := f (ds ! i)]" by blast
      have "Suc i < length (d # ds) \<and> p ((d # ds) ! Suc i)
          \<and> (\<forall>j < Suc i. \<not> p ((d # ds) ! j))
          \<and> ds' = (d # ds)[Suc i := f ((d # ds) ! Suc i)]"
        using i eq False by (auto simp: less_Suc_eq_0_disj)
      then show ?thesis using i(1) eq(1) by blast
    qed
  qed
qed

lemma applySet_title_completed:
  "map_of (applySet [(''title'', a), (''completed'', b)] d)
     = (map_of d)(''title'' \<mapsto> a, ''completed'' \<mapsto> b)"
  by (simp add: applySet_def update_conv')

text \<open>
  What a 200 answer of \<^verbatim>\<open>updateTodo\<close> says about the request and the store: the id
  and the body were accepted, and one record with that id had the two fields set.
\<close>

lemma updateTodo_success:
  assumes "updateTodo e id' body st = (Response StatusOK b, st')"
  obtains oid t i where
    "ObjectIDFromHex id' = Some oid"
    "Decode (parseTime e) body zeroTodo = Inr t"
    "i < length (docs st)"
    "map_of (docs st ! i) ''_id'' = Some (BObjectID oid)"
    "docs st' = (docs st)[i := applySet [(''title'', BString (todo.Title t)),
                                          (''completed'', BString (todo.Completed t))]
                                         (docs st ! i)]"
proof -
  from assms obtain oid where oid: "ObjectIDFromHex id' = Some oid"
    by (cases "ObjectIDFromHex id'")
       (auto simp: updateTodo_def IsValidObjectID_def StatusOK_def StatusBadRequest_def)
  then have valid: "IsValidObjectID id'" by (simp add: IsValidObjectID_def)
  from assms valid obtain t where t: "Decode (parseTime e) body zeroTodo = Inr t"
    by (cases "Decode (parseTime e) body zeroTodo")
       (auto simp: updateTodo_def StatusOK_def StatusBadRequest_def)
  from assms valid have noerr: "storeErr e = None"
    by (cases "storeErr e")
       (auto simp: updateTodo_def t UpdateOne_def StatusOK_def StatusBadRequest_def)
  let ?upd = "[(''title'', BString (todo.Title t)), (''completed'', BString (todo.Completed t))]"
  obtain ds n where
    r: "updateFirst (matches [(''_id'', BObjectID oid)]) (applySet ?upd) (docs st) = (ds, n)"
    by (cases "updateFirst (matches [(''_id'', BObjectID oid)]) (applySet ?upd) (docs st)")
  from assms valid have n: "n \<noteq> 0" and st': "docs st' = ds"
    by (auto simp: updateTodo_def t oid UpdateOne_def noerr r Let_def split: if_splits)
  from updateFirst_spec [OF r] n obtain i where
    i: "i < length (docs st)" "matches [(''_id'', BObjectID oid)] (docs st ! i)"
       "ds = (docs st)[i := applySet ?upd (docs st ! i)]"
    by auto
  from i(2) have "map_of (docs st ! i) ''_id'' = Some (BObjectID oid)"
    by (simp add: matches_id)
  with oid t i(1) i(3) st' that show thesis by simp
qed

text \<open>The example requests, evaluated.\<close>

lemma createTodo_st0:
  "createTodo env0 milk st0 =
     (Response StatusCreated
        [(''message'', GString ''todo created successfully''),
         (''todo_id'', GInsertedID (BObjectID 0x65a1b2c3d4e5f60718293a4d))], stC)"
  by (simp add: createTodo_def Decode_milk InsertOne_def marshalTodoModel_def env0_fields
      NilObjectID_def st0_def stC_def docNew_def)

lemma updateTodo_stC:
  "updateTodo env0 idNew milkDoneStr stC =
     (Response StatusOK [(''message'', GString ''todo updated successfully'')], stU)"
  by (simp add: updateTodo_def IsValidObjectID_def ObjectIDFromHex_idNew Decode_milkDoneStr
      UpdateOne_def env0_fields stC_def stU_def matches_id docNew_def docNewU_def applySet_def)

lemma updateTodo_st1:
  "updateTodo env0 id1 milkDoneStr st1 =
     (Response StatusOK [(''message'', GString ''todo updated successfully'')],
      \<lparr> docs = [doc2, doc1u],
        calls = [CallUpdateOne [(''_id'', BObjectID 0x65a1b2c3d4e5f60718293a4b)]
                   [(''title'', BString ''buy milk''), (''completed'', BString ''true'')]] \<rparr>)"
  by (simp add: updateTodo_def IsValid_id1 ObjectIDFromHex_id1 Decode_milkDoneStr UpdateOne_def
      env0_fields st1_def matches_id doc2_def doc1_def doc1u_def applySet_def)

lemma decodeAll_st1:
  "decodeAll [doc2, doc1] =
     Inr [\<lparr> todoModel.ID = 0x65a1b2c3d4e5f60718293a4a, todoModel.Title = ''walk dog'',
            todoModel.Completed = True, todoModel.CreatedAt = 1700000000001000000 \<rparr>,
          \<lparr> todoModel.ID = 0x65a1b2c3d4e5f60718293a4b, todoModel.Title = ''buy milk'',
            todoModel.Completed = False, todoModel.CreatedAt = 1700000000123000000 \<rparr>]"
proof -
  have a: "decodeDoc doc2 =
      Inr \<lparr> todoModel.ID = 0x65a1b2c3d4e5f60718293a4a, todoModel.Title = ''walk dog'',
            todoModel.Completed = True, todoModel.CreatedAt = 1700000000001000000 \<rparr>"
    by (simp add: decodeDoc_def doc2_def)
  have b: "decodeDoc doc1 =
      Inr \<lparr> todoModel.ID = 0x65a1b2c3d4e5f60718293a4b, todoModel.Title = ''buy milk'',
            todoModel.Completed = False, todoModel.CreatedAt = 1700000000123000000 \<rparr>"
    by (simp add: decodeDoc_def doc1_def)
  show ?thesis by (simp add: a b)
qed

lemma Hex_a: "Hex 0x65a1b2c3d4e5f60718293a4a = ''65a1b2c3d4e5f60718293a4a''"
  by (simp add: Hex_def hextable_def upt_rec)

lemma Hex_b: "Hex 0x65a1b2c3d4e5f60718293a4b = ''65a1b2c3d4e5f60718293a4b''"
  by (simp add: Hex_def hextable_def upt_rec)

lemma Hex_d: "Hex 0x65a1b2c3d4e5f60718293a4d = ''65a1b2c3d4e5f60718293a4d''"
  by (simp add: Hex_def hextable_def upt_rec)

text \<open>
  \<^verbatim>\<open>Hex\<close> against \<^verbatim>\<open>ObjectIDFromHex\<close>: the text that \<open>Hex\<close> gives is read back
  as the same id, and it is the only text of 24 lower-case digits that is.
\<close>

lemma hextable_digits:
  "list_all (\<lambda>n. fromHexChar (hextable ! n) = Some n) [0..<16]"
  by (simp add: upt_rec hextable_def fromHexChar_def)

lemma fromHexChar_hextable: "n < 16 \<Longrightarrow> fromHexChar (hextable ! n) = Some n"
proof -
  assume "n < 16"
  then have "n \<in> set [0..<16]" by simp
  with hextable_digits show ?thesis
    unfolding list_all_iff by (rule bspec)
qed

lemma and_15_take_bit: "(x :: ObjectID) AND 15 = take_bit 4 x"
  by (simp add: take_bit_eq_mask mask_eq_exp_minus_1)

lemma nibble_less: "unat ((x :: ObjectID) AND 15) < 16"
proof -
  have "unat (x AND 15) = take_bit 4 (unat x)"
    by (simp add: and_15_take_bit unsigned_take_bit_eq)
  then show ?thesis
    using take_bit_nat_less_exp [of 4 "unat x"] by simp
qed

lemma take_bit_step:
  "take_bit (4 * Suc k) (w :: ObjectID)
     = push_bit (4 * k) (drop_bit (4 * k) w AND 15) + take_bit (4 * k) w"
proof -
  have "push_bit (4 * k) (drop_bit (4 * k) (take_bit (4 * Suc k) w))
          + take_bit (4 * k) (take_bit (4 * Suc k) w) = take_bit (4 * Suc k) w"
    by (rule bits_ident)
  moreover have "drop_bit (4 * k) (take_bit (4 * Suc k) w) = take_bit 4 (drop_bit (4 * k) w)"
    by (simp add: drop_bit_take_bit)
  moreover have "take_bit (4 * k) (take_bit (4 * Suc k) w) = take_bit (4 * k) w"
    by simp
  ultimately show ?thesis by (simp add: and_15_take_bit)
qed

lemma decodeHex_suffix:
  "k \<le> 24 \<Longrightarrow>
   decodeHex (map (\<lambda>i. hextable ! unat (drop_bit (4 * (23 - i)) w AND 15)) [24 - k..<24]) acc
     = Some (push_bit (4 * k) acc + take_bit (4 * k) w)"
proof (induction k arbitrary: acc)
  case 0
  then show ?case by simp
next
  case (Suc k)
  then have k: "k < 24" by simp
  then have s: "Suc (23 - k) = 24 - k" and d: "24 - Suc k = 23 - k" by arith+
  have "23 - k < 24" by arith
  then have "[23 - k..<24] = (23 - k) # [Suc (23 - k)..<24]"
    by (rule upt_conv_Cons)
  then have upt: "[24 - Suc k..<24] = (23 - k) # [24 - k..<24]"
    by (simp only: s d)
  have idx: "23 - (23 - k) = k" using k by simp
  let ?x = "drop_bit (4 * k) w AND 15"
  have dig: "fromHexChar (hextable ! unat ?x) = Some (unat ?x)"
    by (rule fromHexChar_hextable) (rule nibble_less)
  have "decodeHex (map (\<lambda>i. hextable ! unat (drop_bit (4 * (23 - i)) w AND 15)) [24 - Suc k..<24]) acc
      = decodeHex (map (\<lambda>i. hextable ! unat (drop_bit (4 * (23 - i)) w AND 15)) [24 - k..<24])
          (16 * acc + ?x)"
    unfolding upt by (simp add: idx dig)
  also have "\<dots> = Some (push_bit (4 * k) (16 * acc + ?x) + take_bit (4 * k) w)"
    using Suc.IH [of "16 * acc + ?x"] k by simp
  also have "push_bit (4 * k) (16 * acc + ?x) + take_bit (4 * k) w
      = push_bit (4 * Suc k) acc + take_bit (4 * Suc k) w"
  proof -
    have h: "push_bit (4 * k) (16 * acc) = push_bit (4 * Suc k) acc"
      by (simp add: push_bit_eq_mult power_add mult.assoc mult.commute)
    have a: "push_bit (4 * k) (16 * acc + ?x) = push_bit (4 * k) (16 * acc) + push_bit (4 * k) ?x"
      by (rule push_bit_add)
    show ?thesis
      by (simp only: a h take_bit_step add.assoc)
  qed
  finally show ?case .
qed

lemma ObjectIDFromHex_Hex: "ObjectIDFromHex (Hex w) = Some w"
proof -
  have "decodeHex (Hex w) 0 = Some (push_bit 96 0 + take_bit 96 w)"
    using decodeHex_suffix [of 24 w 0] by (simp add: Hex_def)
  moreover have "take_bit 96 w = w"
    by (rule take_bit_word_eq_self) simp
  ultimately show ?thesis
    by (simp add: ObjectIDFromHex_def length_Hex)
qed

lemma Hex_chars: "set (Hex w) \<subseteq> set hextable"
proof -
  have "hextable ! unat (x AND 15) \<in> set hextable" for x :: ObjectID
    using nibble_less [of x] by (intro nth_mem) (simp add: hextable_def)
  then show ?thesis by (auto simp: Hex_def)
qed

lemma hextable_digit:
  assumes "c \<in> set hextable"
  shows "\<exists>d < 16. fromHexChar c = Some d \<and> c = hextable ! d"
proof -
  have len: "length hextable = 16" by (simp add: hextable_def)
  from assms obtain d where "d < length hextable" "c = hextable ! d"
    by (metis in_set_conv_nth)
  then have d: "d < 16" "c = hextable ! d"
    by (simp_all only: len)
  with fromHexChar_hextable [of d] show ?thesis by auto
qed

lemma unat_shift_digit:
  assumes "16 * unat (a :: ObjectID) + d < 2 ^ 96"
  shows "unat (16 * a + word_of_nat d) = 16 * unat a + d"
proof -
  have "(word_of_nat (16 * unat a + d) :: ObjectID) = 16 * a + word_of_nat d"
    by simp
  moreover from assms have "16 * unat a + d < 2 ^ LENGTH(96)" by simp
  ultimately show ?thesis
    by (rule of_nat_inverse)
qed

lemma decodeHex_inj:
  assumes "length cs = length cs'"
    and "set cs \<subseteq> set hextable" and "set cs' \<subseteq> set hextable"
    and "length cs \<le> 24"
    and "unat a < 16 ^ (24 - length cs)" and "unat a' < 16 ^ (24 - length cs)"
    and "decodeHex cs a = decodeHex cs' a'"
  shows "a = a' \<and> cs = cs'"
  using assms
proof (induction cs cs' arbitrary: a a' rule: list_induct2)
  case Nil
  then show ?case by simp
next
  case (Cons c cs c' cs')
  from Cons.prems obtain d where d: "d < 16" "fromHexChar c = Some d" "c = hextable ! d"
    using hextable_digit [of c] by auto
  from Cons.prems obtain d' where d': "d' < 16" "fromHexChar c' = Some d'" "c' = hextable ! d'"
    using hextable_digit [of c'] by auto
  let ?n = "length cs"
  from Cons.prems have n: "Suc ?n \<le> 24" by simp
  then have pw: "(16::nat) ^ (24 - ?n) = 16 * 16 ^ (24 - Suc ?n)"
    by (metis Suc_diff_Suc Suc_le_lessD power_Suc)
  have le: "(16::nat) ^ (24 - ?n) \<le> 2 ^ 96"
  proof -
    have "(16::nat) ^ (24 - ?n) \<le> 16 ^ 24" by (rule power_increasing) simp_all
    then show ?thesis by simp
  qed
  have b: "16 * unat a + d < 16 ^ (24 - ?n)"
    using Cons.prems(4) d(1) unfolding pw by simp
  have b': "16 * unat a' + d' < 16 ^ (24 - ?n)"
    using Cons.prems(5) d'(1) unfolding pw by simp
  have u: "unat (16 * a + word_of_nat d) = 16 * unat a + d"
    using b le by (intro unat_shift_digit) simp
  have u': "unat (16 * a' + word_of_nat d') = 16 * unat a' + d'"
    using b' le by (intro unat_shift_digit) simp
  from Cons.prems(6) have "decodeHex cs (16 * a + word_of_nat d)
      = decodeHex cs' (16 * a' + word_of_nat d')"
    by (simp add: d(2) d'(2))
  with Cons.IH [of "16 * a + word_of_nat d" "16 * a' + word_of_nat d'"] Cons.prems n b b' u u'
  have eq: "16 * a + word_of_nat d = 16 * a' + word_of_nat d'" and cs: "cs = cs'"
    by simp_all
  from eq have "16 * unat a + d = 16 * unat a' + d'"
    using u u' by simp
  with d(1) d'(1) have "unat a = unat a'" "d = d'" by arith+
  then show ?case using cs d(3) d'(3) by (simp add: word_unat_eq_iff)
qed

lemma Hex_unique:
  assumes "length s = 24" and "set s \<subseteq> set hextable" and "ObjectIDFromHex s = Some w"
  shows "s = Hex w"
proof -
  from assms(1,3) have "decodeHex s 0 = Some w"
    by (simp add: ObjectIDFromHex_def)
  moreover have "decodeHex (Hex w) 0 = Some w"
    using ObjectIDFromHex_Hex [of w] by (simp add: ObjectIDFromHex_def length_Hex)
  ultimately have "decodeHex s 0 = decodeHex (Hex w) 0" by simp
  with decodeHex_inj [of s "Hex w" 0 0] assms(1,2) Hex_chars [of w] length_Hex [of w]
  show ?thesis by simp
qed

text \<open>The loop of \<^verbatim>\<open>fetchTodos\<close> is a map.\<close>

lemma foldl_append_view: "foldl (\<lambda>acc t. acc @ [toView t]) acc ts = acc @ map toView ts"
  by (induction ts arbitrary: acc) simp_all

lemma todoList_map: "todoList ts = map toView ts"
  by (simp add: todoList_def foldl_append_view)

text \<open>
  Once a type error is saved, decoding ends in an error; so a body that decodes has only
  strings and nulls under \<^verbatim>\<open>completed\<close>.
\<close>

lemma saveError_Some: "saveError (Some e) x = Some e"
  by (simp add: saveError_def)

lemma decodeMembers_saved: "\<exists>e'. decodeMembers pt ms t (Some e) = Inl e'"
proof (induction ms arbitrary: t)
  case Nil
  then show ?case by simp
next
  case (Cons m ms)
  obtain k v where m: "m = (k, v)" by (cases m)
  show ?case
    using Cons.IH
    by (auto simp: m saveError_Some split: option.splits field.splits json.splits)
qed

lemma decodeMembers_completed:
  assumes "decodeMembers pt ms t saved = Inr t'"
    and "(k, v) \<in> set ms" and "fieldOf k = Some FCompleted"
  shows "v = JNull \<or> (\<exists>s. v = JString s)"
  using assms
proof (induction ms arbitrary: t saved)
  case Nil
  then show ?case by simp
next
  case (Cons m ms)
  obtain k0 v0 where m: "m = (k0, v0)" by (cases m)
  show ?case
  proof (cases "(k, v) = m")
    case True
    then have kv: "k0 = k" "v0 = v" using m by simp_all
    show ?thesis
    proof (rule ccontr)
      assume n: "\<not> (v = JNull \<or> (\<exists>s. v = JString s))"
      then have "decodeMembers pt (m # ms) t saved
          = decodeMembers pt ms t (saveError saved (UnmarshalTypeError (fieldName FCompleted)))"
        using Cons.prems(3) by (cases v) (simp_all add: m kv)
      moreover obtain e where
        "saveError saved (UnmarshalTypeError (fieldName FCompleted)) = Some e"
        by (cases saved) (simp_all add: saveError_def)
      ultimately show False
        using Cons.prems(1) decodeMembers_saved [of pt ms t e] by auto
    qed
  next
    case False
    then have mem: "(k, v) \<in> set ms" using Cons.prems(2) by simp
    from Cons.prems(1) obtain t1 s1 where "decodeMembers pt ms t1 s1 = Inr t'"
      by (auto simp: m split: option.splits field.splits json.splits)
    from Cons.IH [OF this mem Cons.prems(3)] show ?thesis .
  qed
qed

text \<open>An object of strings under the keys of title and completed decodes.\<close>

lemma decodeMembers_strings:
  assumes "list_all (\<lambda>kv. (fieldOf (fst kv) = Some FTitle \<or> fieldOf (fst kv) = Some FCompleted)
                          \<and> (\<exists>s. snd kv = JString s)) ms"
  shows "\<exists>t'. decodeMembers pt ms t None = Inr t'"
  using assms
proof (induction ms arbitrary: t)
  case Nil
  then show ?case by simp
next
  case (Cons m ms)
  obtain k v where m: "m = (k, v)" by (cases m)
  from Cons.prems obtain s where v: "v = JString s"
    and k: "fieldOf k = Some FTitle \<or> fieldOf k = Some FCompleted"
    and rest: "list_all (\<lambda>kv. (fieldOf (fst kv) = Some FTitle \<or> fieldOf (fst kv) = Some FCompleted)
                          \<and> (\<exists>s. snd kv = JString s)) ms"
    by (auto simp: m)
  from k show ?case
  proof
    assume "fieldOf k = Some FTitle"
    then show ?thesis using Cons.IH [OF rest, of "setString FTitle s t"] by (simp add: m v)
  next
    assume "fieldOf k = Some FCompleted"
    then show ?thesis using Cons.IH [OF rest, of "setString FCompleted s t"] by (simp add: m v)
  qed
qed

lemma fieldOf_Completed: "fieldOf ''Completed'' = Some FCompleted"
  by (simp add: fieldOf_def toLower_def fieldName_def)

lemma updateFirst_match:
  assumes "list_ex p ds"
  shows "\<exists>ds'. updateFirst p f ds = (ds', 1)"
proof -
  obtain ds' n where r: "updateFirst p f ds = (ds', n)" by (cases "updateFirst p f ds")
  from updateFirst_spec [OF r] assms have "n = 1" by auto
  with r show ?thesis by simp
qed

subsection \<open>Updating a record\<close>

text \<open>
  Claim C1, as the code has it. A PUT request whose path id is a well-formed ObjectID hex
  string that matches a stored record (at least one, so in particular exactly one), whose
  body decodes into the wire struct, and whose store round trip succeeds, is answered
  with the 200 envelope that holds the message; a JSON object of strings under
  \<^verbatim>\<open>title\<close> and \<^verbatim>\<open>completed\<close>, in any order and letter case of the keys, is
  such a body. A body with a JSON boolean under \<^verbatim>\<open>completed\<close> does not decode: it
  is answered with a 400 envelope of message and error and the store is not called,
  whatever the id, the other members and the store. Otherwise, that is for an id that
  is not well formed, a body that does not decode or a store round trip that fails, the
  answer is the 400 envelope of message and error. The one case not covered is the
  well-formed id that matches no record, with a body that decodes and a round trip that
  succeeds.
\<close>

theorem C1_update_answers:
  "(ObjectIDFromHex id' = Some oid
      \<and> Decode (parseTime e) body zeroTodo = Inr t
      \<and> storeErr e = None
      \<and> list_ex (\<lambda>d. map_of d ''_id'' = Some (BObjectID oid)) (docs st)
    \<longrightarrow> fst (updateTodo e id' body st)
          = Response StatusOK [(''message'', GString ''todo updated successfully'')])
   \<and> (list_all (\<lambda>kv. (fieldOf (fst kv) = Some FTitle \<or> fieldOf (fst kv) = Some FCompleted)
                      \<and> (\<exists>s. snd kv = JString s)) ms
    \<longrightarrow> (\<exists>t'. Decode (parseTime e) (Some (JObject ms)) zeroTodo = Inr t'))
   \<and> ((k, JBool b) \<in> set ms \<and> fieldOf k = Some FCompleted
    \<longrightarrow> (\<exists>msg er. updateTodo e id' (Some (JObject ms)) st =
           (Response StatusBadRequest [(''message'', GString msg), (''error'', er)], st))
      \<and> (IsValidObjectID id' \<longrightarrow>
           (\<exists>err. updateTodo e id' (Some (JObject ms)) st =
              (Response StatusBadRequest
                 [(''message'', GString ''invalid request''), (''error'', GErrorText err)], st))))
   \<and> (\<not> IsValidObjectID id'
        \<or> (\<exists>err. Decode (parseTime e) body zeroTodo = Inl err)
        \<or> storeErr e \<noteq> None
    \<longrightarrow> (\<exists>msg er. fst (updateTodo e id' body st) =
           Response StatusBadRequest [(''message'', GString msg), (''error'', er)]))"
proof (intro conjI impI)
  assume a: "ObjectIDFromHex id' = Some oid
      \<and> Decode (parseTime e) body zeroTodo = Inr t
      \<and> storeErr e = None
      \<and> list_ex (\<lambda>d. map_of d ''_id'' = Some (BObjectID oid)) (docs st)"
  then have valid: "IsValidObjectID id'" by (simp add: IsValidObjectID_def)
  from a have "list_ex (matches [(''_id'', BObjectID oid)]) (docs st)"
    by (simp add: matches_id [abs_def])
  then obtain ds where
    "updateFirst (matches [(''_id'', BObjectID oid)])
       (applySet [(''title'', BString (todo.Title t)), (''completed'', BString (todo.Completed t))])
       (docs st) = (ds, 1)"
    using updateFirst_match by blast
  then show "fst (updateTodo e id' body st)
          = Response StatusOK [(''message'', GString ''todo updated successfully'')]"
    using a by (simp add: updateTodo_def valid UpdateOne_def)
next
  assume "list_all (\<lambda>kv. (fieldOf (fst kv) = Some FTitle \<or> fieldOf (fst kv) = Some FCompleted)
                      \<and> (\<exists>s. snd kv = JString s)) ms"
  then show "\<exists>t'. Decode (parseTime e) (Some (JObject ms)) zeroTodo = Inr t'"
    using decodeMembers_strings [of ms "parseTime e" zeroTodo] by (simp add: Decode_def)
next
  assume a: "(k, JBool b) \<in> set ms \<and> fieldOf k = Some FCompleted"
  have "\<not> (\<exists>t'. decodeMembers (parseTime e) ms zeroTodo None = Inr t')"
    using decodeMembers_completed [of "parseTime e" ms zeroTodo None _ k "JBool b"] a by auto
  then obtain err where err: "Decode (parseTime e) (Some (JObject ms)) zeroTodo = Inl err"
    by (cases "decodeMembers (parseTime e) ms zeroTodo None") (auto simp: Decode_def)
  show "\<exists>msg er. updateTodo e id' (Some (JObject ms)) st =
           (Response StatusBadRequest [(''message'', GString msg), (''error'', er)], st)"
    by (cases "IsValidObjectID id'") (simp_all add: updateTodo_def err)
  show "\<exists>err. updateTodo e id' (Some (JObject ms)) st =
              (Response StatusBadRequest
                 [(''message'', GString ''invalid request''), (''error'', GErrorText err)], st)"
    if "IsValidObjectID id'"
    using that by (simp add: updateTodo_def err)
next
  assume a: "\<not> IsValidObjectID id'
        \<or> (\<exists>err. Decode (parseTime e) body zeroTodo = Inl err)
        \<or> storeErr e \<noteq> None"
  show "\<exists>msg er. fst (updateTodo e id' body st) =
           Response StatusBadRequest [(''message'', GString msg), (''error'', er)]"
  proof (cases "IsValidObjectID id'")
    case False
    then show ?thesis by (simp add: updateTodo_def)
  next
    case True
    show ?thesis
    proof (cases "Decode (parseTime e) body zeroTodo")
      case (Inl err)
      then show ?thesis using True by (simp add: updateTodo_def)
    next
      case (Inr t')
      with a True obtain er where "storeErr e = Some er" by auto
      then show ?thesis using True Inr by (simp add: updateTodo_def UpdateOne_def)
    qed
  qed
qed

theorem C1_update_answers_witness:
  "ObjectIDFromHex id1 = Some 0x65a1b2c3d4e5f60718293a4b
   \<and> list_ex (\<lambda>d. map_of d ''_id'' = Some (BObjectID 0x65a1b2c3d4e5f60718293a4b)) (docs st1)
   \<and> storeErr env0 = None
   \<and> Decode (parseTime env0) (Some (JObject milkSwapped)) zeroTodo
       = Inr (zeroTodo\<lparr>todo.Completed := ''true'', todo.Title := ''buy milk''\<rparr>)
   \<and> fst (updateTodo env0 id1 (Some (JObject milkSwapped)) st1)
       = Response StatusOK [(''message'', GString ''todo updated successfully'')]
   \<and> (''completed'', JBool True) \<in> set doneOnly
   \<and> IsValidObjectID idAbsent
   \<and> (\<exists>err. updateTodo envDown idAbsent (Some (JObject doneOnly)) st1 =
         (Response StatusBadRequest
            [(''message'', GString ''invalid request''), (''error'', GErrorText err)], st1))
   \<and> \<not> IsValidObjectID badId
   \<and> (\<exists>msg er. fst (updateTodo env0 badId milkDoneStr st1) =
         Response StatusBadRequest [(''message'', GString msg), (''error'', er)])
   \<and> storeErr envDown \<noteq> None
   \<and> (\<exists>msg er. fst (updateTodo envDown id1 milkDoneStr st1) =
         Response StatusBadRequest [(''message'', GString msg), (''error'', er)])"
proof -
  have a: "list_ex (\<lambda>d. map_of d ''_id'' = Some (BObjectID 0x65a1b2c3d4e5f60718293a4b))
             (docs st1)"
    by (simp add: st1_def doc1_def doc2_def)
  have sw: "list_all (\<lambda>kv. (fieldOf (fst kv) = Some FTitle \<or> fieldOf (fst kv) = Some FCompleted)
                      \<and> (\<exists>s. snd kv = JString s)) milkSwapped"
    by (simp add: milkSwapped_def fieldOf_title fieldOf_Completed)
  have d: "Decode (parseTime env0) (Some (JObject milkSwapped)) zeroTodo
       = Inr (zeroTodo\<lparr>todo.Completed := ''true'', todo.Title := ''buy milk''\<rparr>)"
    by (simp add: Decode_def milkSwapped_def fieldOf_title fieldOf_Completed setString_def)
  have b: "(''completed'', JBool True) \<in> set doneOnly"
    by (simp add: doneOnly_def)
  have v: "IsValidObjectID idAbsent"
    by (simp add: IsValidObjectID_def ObjectIDFromHex_idAbsent)
  have down: "storeErr envDown \<noteq> None"
    by (simp add: envDown_def)
  from C1_update_answers [of id1 "0x65a1b2c3d4e5f60718293a4b" env0 "Some (JObject milkSwapped)"
      "zeroTodo\<lparr>todo.Completed := ''true'', todo.Title := ''buy milk''\<rparr>" st1 milkSwapped]
    ObjectIDFromHex_id1 d env0_fields(1) a sw
  have 1: "fst (updateTodo env0 id1 (Some (JObject milkSwapped)) st1)
       = Response StatusOK [(''message'', GString ''todo updated successfully'')]"
    by blast
  from C1_update_answers [of idAbsent _ envDown _ _ st1 doneOnly "''completed''" True]
    b fieldOf_completed v
  have 2: "\<exists>err. updateTodo envDown idAbsent (Some (JObject doneOnly)) st1 =
         (Response StatusBadRequest
            [(''message'', GString ''invalid request''), (''error'', GErrorText err)], st1)"
    by blast
  from C1_update_answers [of badId _ env0 milkDoneStr _ st1] not_valid_badId
  have 3: "\<exists>msg er. fst (updateTodo env0 badId milkDoneStr st1) =
         Response StatusBadRequest [(''message'', GString msg), (''error'', er)]"
    by blast
  from C1_update_answers [of id1 _ envDown milkDoneStr _ st1] down
  have 4: "\<exists>msg er. fst (updateTodo envDown id1 milkDoneStr st1) =
         Response StatusBadRequest [(''message'', GString msg), (''error'', er)]"
    by blast
  from 1 2 3 4 ObjectIDFromHex_id1 a env0_fields(1) d b v not_valid_badId down
  show ?thesis by simp
qed

text \<open>
  The claim as stated fails on the scenario body: \<open>id1\<close> is well formed and matches
  exactly one record of \<open>st1\<close>, the body is
  \<^verbatim>\<open>{"title":"buy milk","completed":true}\<close>, and the answer is 400, not 200.
\<close>

theorem C1_scenario_body_counterexample:
  "IsValidObjectID id1
   \<and> ObjectIDFromHex id1 = Some 0x65a1b2c3d4e5f60718293a4b
   \<and> length (filter (\<lambda>d. map_of d ''_id'' = Some (BObjectID 0x65a1b2c3d4e5f60718293a4b))
        (docs st1)) = 1
   \<and> milkDone = Some (JObject [(''title'', JString ''buy milk''), (''completed'', JBool True)])
   \<and> fst (updateTodo env0 id1 milkDone st1) =
        Response StatusBadRequest
          [(''message'', GString ''invalid request''),
           (''error'', GErrorText (UnmarshalTypeError ''completed''))]
   \<and> fst (updateTodo env0 id1 milkDone st1) \<noteq>
        Response StatusOK [(''message'', GString ''todo updated successfully'')]"
proof -
  have "fst (updateTodo env0 id1 milkDone st1) =
        Response StatusBadRequest
          [(''message'', GString ''invalid request''),
           (''error'', GErrorText (UnmarshalTypeError ''completed''))]"
    by (simp add: updateTodo_def IsValid_id1 Decode_milkDone)
  moreover have
    "length (filter (\<lambda>d. map_of d ''_id'' = Some (BObjectID 0x65a1b2c3d4e5f60718293a4b))
       (docs st1)) = 1"
    by (simp add: st1_def doc1_def doc2_def)
  ultimately show ?thesis
    by (simp add: IsValid_id1 ObjectIDFromHex_id1 milkDone_def StatusOK_def StatusBadRequest_def)
qed

subsection \<open>A well-formed id that matches no record\<close>

text \<open>
  Claim C2 says that a DELETE or PUT request whose id is well formed and matches no
  record, with a store round trip that succeeds, is answered with the client-error
  envelope and does not panic. The handlers do otherwise: the round trip returns a nil
  error and a count of zero, the failure branch is entered on the count, and building
  its envelope calls \<^verbatim>\<open>err.Error()\<close> on the nil error. Both handlers panic and
  write no response.
\<close>

theorem C2_no_match_panics:
  assumes "ObjectIDFromHex id' = Some oid"
    and "storeErr e = None"
    and "\<not> list_ex (matches [(''_id'', BObjectID oid)]) (docs st)"
    and "Decode (parseTime e) body zeroTodo = Inr t"
  shows "fst (deleteTodo e id' st) = Panic \<and> fst (updateTodo e id' body st) = Panic"
  using assms
  by (simp add: deleteTodo_def updateTodo_def IsValidObjectID_def DeleteOne_def UpdateOne_def
      deleteFirst_none updateFirst_none)

theorem C2_no_match_panics_witness:
  "ObjectIDFromHex idAbsent = Some 0x65a1b2c3d4e5f60718293a4f
   \<and> storeErr env0 = None
   \<and> \<not> list_ex (matches [(''_id'', BObjectID 0x65a1b2c3d4e5f60718293a4f)]) (docs st1)
   \<and> fst (deleteTodo env0 idAbsent st1) = Panic
   \<and> fst (updateTodo env0 idAbsent milkDoneStr st1) = Panic"
proof -
  have b: "\<not> list_ex (matches [(''_id'', BObjectID 0x65a1b2c3d4e5f60718293a4f)]) (docs st1)"
    by (simp add: st1_def doc1_def doc2_def matches_id)
  from C2_no_match_panics [OF ObjectIDFromHex_idAbsent env0_fields(1) b Decode_milkDoneStr]
    ObjectIDFromHex_idAbsent env0_fields(1) b
  show ?thesis by simp
qed

subsection \<open>The kind of the stored completed field\<close>

text \<open>
  Claim C3 says that every record reachable through create and update holds a boolean
  under \<^verbatim>\<open>completed\<close>, and that every operation keeps it so. Create does; update
  does not: after every update answered with 200, a record of the collection holds under
  \<^verbatim>\<open>completed\<close> the BSON string that is the text of the body's field, which is no
  boolean.
\<close>

theorem C3_update_stores_string:
  assumes "updateTodo e id' body st = (Response StatusOK b, st')"
  shows "\<exists>i t. i < length (docs st')
           \<and> Decode (parseTime e) body zeroTodo = Inr t
           \<and> map_of (docs st' ! i) ''completed'' = Some (BString (todo.Completed t))
           \<and> map_of (docs st' ! i) ''completed'' \<noteq> Some (BBoolean True)
           \<and> map_of (docs st' ! i) ''completed'' \<noteq> Some (BBoolean False)"
proof -
  from assms obtain oid t i where
    h: "Decode (parseTime e) body zeroTodo = Inr t" "i < length (docs st)"
       "docs st' = (docs st)[i := applySet [(''title'', BString (todo.Title t)),
                                             (''completed'', BString (todo.Completed t))]
                                            (docs st ! i)]"
    by (rule updateTodo_success)
  from h(2,3) have "i < length (docs st')" by simp
  moreover from h(2,3) have
    "map_of (docs st' ! i) ''completed'' = Some (BString (todo.Completed t))"
    by (simp add: applySet_title_completed)
  ultimately show ?thesis using h(1) by auto
qed

theorem C3_update_stores_string_witness:
  "createTodo env0 milk st0 =
     (Response StatusCreated
        [(''message'', GString ''todo created successfully''),
         (''todo_id'', GInsertedID (BObjectID 0x65a1b2c3d4e5f60718293a4d))], stC)
   \<and> updateTodo env0 idNew milkDoneStr stC =
       (Response StatusOK [(''message'', GString ''todo updated successfully'')], stU)
   \<and> map_of (docs stC ! 0) ''completed'' = Some (BBoolean False)
   \<and> map_of (docs stU ! 0) ''completed'' = Some (BString ''true'')
   \<and> cursorAll env0 (docs stU) = Inl (StoreError ''cannot decode'')"
proof -
  from C3_update_stores_string [OF updateTodo_stC] obtain i t where
    "i < length (docs stU)" "Decode (parseTime env0) milkDoneStr zeroTodo = Inr t"
    "map_of (docs stU ! i) ''completed'' = Some (BString (todo.Completed t))"
    by blast
  then have "map_of (docs stU ! 0) ''completed'' = Some (BString ''true'')"
    by (auto simp: stU_def Decode_milkDoneStr)
  moreover have "map_of (docs stC ! 0) ''completed'' = Some (BBoolean False)"
    by (simp add: stC_def docNew_def)
  moreover have "cursorAll env0 (docs stU) = Inl (StoreError ''cannot decode'')"
    by (simp add: env0_fields stU_def docNewU_def decodeDoc_def)
  ultimately show ?thesis using createTodo_st0 updateTodo_stC by simp
qed

subsection \<open>Creating a record\<close>

text \<open>
  Claim C4. For a POST request whose body decodes and has a non-empty title, the record
  that the handler inserts has \<^verbatim>\<open>completed\<close> false whatever the body holds, the id
  generated on the server (that of \<^verbatim>\<open>NewObjectID\<close>, or the driver's when that is the
  nil id and so left out) and the time of the server's clock. When the round trip
  succeeds and the id is not in the collection, the answer is 201 with that id as
  \<^verbatim>\<open>todo_id\<close> and the record is appended; and every 201 answer is of this kind, with
  an id that no stored record had. The id's hex form has 24 characters.
\<close>

theorem C4_create_inserts:
  assumes "Decode (parseTime e) body zeroTodo = Inr t" and "todo.Title t \<noteq> []"
  shows "let oid = (if newObjectID e = NilObjectID then driverObjectID e else newObjectID e);
             d = [(''_id'', BObjectID oid), (''title'', BString (todo.Title t)),
                  (''completed'', BBoolean False), (''createAt'', BDateTime (now e div 1000000))]
         in (storeErr e = None
               \<and> \<not> list_ex (\<lambda>x. map_of x ''_id'' = Some (BObjectID oid)) (docs st)
             \<longrightarrow> fst (createTodo e body st) =
                   Response StatusCreated
                     [(''message'', GString ''todo created successfully''),
                      (''todo_id'', GInsertedID (BObjectID oid))]
               \<and> docs (snd (createTodo e body st)) = docs st @ [d])
          \<and> (\<forall>b st'. createTodo e body st = (Response StatusCreated b, st') \<longrightarrow>
                 b = [(''message'', GString ''todo created successfully''),
                      (''todo_id'', GInsertedID (BObjectID oid))]
               \<and> docs st' = docs st @ [d]
               \<and> \<not> list_ex (\<lambda>x. map_of x ''_id'' = Some (BObjectID oid)) (docs st))
          \<and> length (Hex oid) = 24 \<and> Hex oid \<noteq> []"
proof (cases "newObjectID e = NilObjectID")
  case True
  then show ?thesis
    using assms
    by (cases "storeErr e")
       (auto simp: createTodo_def InsertOne_def marshalTodoModel_def Let_def length_Hex
          Hex_nonempty StatusCreated_def StatusBadRequest_def)
next
  case False
  then show ?thesis
    using assms
    by (cases "storeErr e")
       (auto simp: createTodo_def InsertOne_def marshalTodoModel_def Let_def length_Hex
          Hex_nonempty StatusCreated_def StatusBadRequest_def)
qed

theorem C4_create_inserts_witness:
  "Decode (parseTime env0) milkDoneStr zeroTodo
     = Inr (zeroTodo\<lparr>todo.Title := ''buy milk'', todo.Completed := ''true''\<rparr>)
   \<and> storeErr env0 = None
   \<and> fst (createTodo env0 milkDoneStr st1) =
        Response StatusCreated
          [(''message'', GString ''todo created successfully''),
           (''todo_id'', GInsertedID (BObjectID 0x65a1b2c3d4e5f60718293a4d))]
   \<and> docs (snd (createTodo env0 milkDoneStr st1)) = [doc2, doc1, docNew]
   \<and> Hex 0x65a1b2c3d4e5f60718293a4d = ''65a1b2c3d4e5f60718293a4d''"
proof -
  have t: "todo.Title (zeroTodo\<lparr>todo.Title := ''buy milk'', todo.Completed := ''true''\<rparr>) \<noteq> []"
    by simp
  have f: "\<not> list_ex (\<lambda>x. map_of x ''_id'' = Some (BObjectID 0x65a1b2c3d4e5f60718293a4d))
             (docs st1)"
    by (simp add: st1_def doc1_def doc2_def)
  from C4_create_inserts [OF Decode_milkDoneStr t, of env0 st1] env0_fields f Hex_d
    Decode_milkDoneStr [of "parseTime env0"]
  show ?thesis by (simp add: Let_def NilObjectID_def st1_def docNew_def)
qed

text \<open>
  Claim C5. A POST request whose body does not decode, or decodes to an empty title, is
  answered with the 400 envelope of message and error, and the store is returned as it
  was: no document is inserted and no round trip is made.
\<close>

theorem C5_create_rejects:
  assumes "(\<exists>err. Decode (parseTime e) body zeroTodo = Inl err)
         \<or> (\<exists>t. Decode (parseTime e) body zeroTodo = Inr t \<and> todo.Title t = [])"
  shows "snd (createTodo e body st) = st
       \<and> (\<exists>msg er. fst (createTodo e body st) =
             Response StatusBadRequest [(''message'', GString msg), (''error'', er)])"
  using assms by (auto simp: createTodo_def)

theorem C5_create_rejects_witness:
  "Decode (parseTime env0) None zeroTodo = Inl SyntaxError
   \<and> createTodo env0 None st1 =
       (Response StatusBadRequest
          [(''message'', GString ''invalid request''), (''error'', GErrorText SyntaxError)], st1)
   \<and> Decode (parseTime env0) (Some (JObject [(''completed'', JString ''true'')])) zeroTodo
       = Inr (zeroTodo\<lparr>todo.Completed := ''true''\<rparr>)
   \<and> createTodo env0 (Some (JObject [(''completed'', JString ''true'')])) st1 =
       (Response StatusBadRequest
          [(''message'', GString ''title is required''), (''error'', GString ''bad request'')],
        st1)"
proof -
  have a: "Decode (parseTime env0) None zeroTodo = Inl SyntaxError"
    by (simp add: Decode_def)
  have b: "Decode (parseTime env0) (Some (JObject [(''completed'', JString ''true'')])) zeroTodo
       = Inr (zeroTodo\<lparr>todo.Completed := ''true''\<rparr>)"
    by (simp add: Decode_def fieldOf_completed setString_def)
  have c: "todo.Title (zeroTodo\<lparr>todo.Completed := ''true''\<rparr>) = []"
    by (simp add: zeroTodo_def)
  from C5_create_rejects [of env0 None st1] a
  have 1: "snd (createTodo env0 None st1) = st1" by blast
  from C5_create_rejects [of env0 "Some (JObject [(''completed'', JString ''true'')])" st1] b c
  have 2: "snd (createTodo env0 (Some (JObject [(''completed'', JString ''true'')])) st1) = st1"
    by blast
  have 3: "fst (createTodo env0 None st1) = Response StatusBadRequest
          [(''message'', GString ''invalid request''), (''error'', GErrorText SyntaxError)]"
    by (simp add: createTodo_def a)
  have 4: "fst (createTodo env0 (Some (JObject [(''completed'', JString ''true'')])) st1) =
       Response StatusBadRequest
          [(''message'', GString ''title is required''), (''error'', GString ''bad request'')]"
    by (simp add: createTodo_def b c)
  from 1 2 3 4 a b show ?thesis by (simp add: prod_eq_iff)
qed

subsection \<open>Malformed identifiers\<close>

text \<open>
  Claim C6. A PUT or DELETE request whose path id is not a valid ObjectID hex string is
  answered with the 400 envelope before any store call: the store, its log of round trips
  included, is returned as it was.
\<close>

theorem C6_malformed_id_fails_fast:
  assumes "\<not> IsValidObjectID id'"
  shows "updateTodo e id' body st =
           (Response StatusBadRequest
              [(''message'', GString ''invalid id''), (''error'', GString ''bad request'')], st)
       \<and> deleteTodo e id' st =
           (Response StatusBadRequest
              [(''message'', GString ''invalid id''), (''error'', GString ''bad request'')], st)"
  using assms by (simp add: updateTodo_def deleteTodo_def)

theorem C6_malformed_id_fails_fast_witness:
  "\<not> IsValidObjectID badId
   \<and> updateTodo env0 badId milkDoneStr st1 =
       (Response StatusBadRequest
          [(''message'', GString ''invalid id''), (''error'', GString ''bad request'')], st1)
   \<and> deleteTodo env0 badId st1 =
       (Response StatusBadRequest
          [(''message'', GString ''invalid id''), (''error'', GString ''bad request'')], st1)"
  using C6_malformed_id_fails_fast [OF not_valid_badId, of env0 milkDoneStr st1] not_valid_badId
  by simp

subsection \<open>What a successful update leaves alone\<close>

text \<open>
  Claim C7. After an update answered with 200, the collection differs from the one
  before in one record, one that has the id of the request: every other record is as it
  was, and in that record the fields are those of before with \<^verbatim>\<open>title\<close> and
  \<^verbatim>\<open>completed\<close> overwritten from the body; \<^verbatim>\<open>_id\<close> and \<^verbatim>\<open>createAt\<close> in
  particular are unchanged.
\<close>

theorem C7_update_frame:
  assumes "updateTodo e id' body st = (Response StatusOK b, st')"
  shows "\<exists>i oid t.
           i < length (docs st)
         \<and> ObjectIDFromHex id' = Some oid
         \<and> Decode (parseTime e) body zeroTodo = Inr t
         \<and> map_of (docs st ! i) ''_id'' = Some (BObjectID oid)
         \<and> docs st' = (docs st)[i := docs st' ! i]
         \<and> map_of (docs st' ! i)
             = (map_of (docs st ! i))(''title'' \<mapsto> BString (todo.Title t),
                                      ''completed'' \<mapsto> BString (todo.Completed t))
         \<and> map_of (docs st' ! i) ''_id'' = map_of (docs st ! i) ''_id''
         \<and> map_of (docs st' ! i) ''createAt'' = map_of (docs st ! i) ''createAt''"
proof -
  from assms obtain oid t i where
    h: "ObjectIDFromHex id' = Some oid" "Decode (parseTime e) body zeroTodo = Inr t"
       "i < length (docs st)" "map_of (docs st ! i) ''_id'' = Some (BObjectID oid)"
       "docs st' = (docs st)[i := applySet [(''title'', BString (todo.Title t)),
                                             (''completed'', BString (todo.Completed t))]
                                            (docs st ! i)]"
    by (rule updateTodo_success)
  have di: "docs st' ! i = applySet [(''title'', BString (todo.Title t)),
                                      (''completed'', BString (todo.Completed t))] (docs st ! i)"
    using h(3,5) by simp
  have m: "map_of (docs st' ! i)
             = (map_of (docs st ! i))(''title'' \<mapsto> BString (todo.Title t),
                                      ''completed'' \<mapsto> BString (todo.Completed t))"
    by (simp add: di applySet_title_completed)
  have "docs st' = (docs st)[i := docs st' ! i]"
    using h(3,5) by simp
  moreover have "map_of (docs st' ! i) ''_id'' = map_of (docs st ! i) ''_id''"
    by (simp add: m)
  moreover have "map_of (docs st' ! i) ''createAt'' = map_of (docs st ! i) ''createAt''"
    by (simp add: m)
  ultimately show ?thesis using h(1-4) m by blast
qed

theorem C7_update_frame_witness:
  "updateTodo env0 id1 milkDoneStr st1 =
     (Response StatusOK [(''message'', GString ''todo updated successfully'')],
      \<lparr> docs = [doc2, doc1u],
        calls = [CallUpdateOne [(''_id'', BObjectID 0x65a1b2c3d4e5f60718293a4b)]
                   [(''title'', BString ''buy milk''), (''completed'', BString ''true'')]] \<rparr>)
   \<and> (\<exists>i oid t.
           i < length [doc2, doc1]
         \<and> ObjectIDFromHex id1 = Some oid
         \<and> Decode (parseTime env0) milkDoneStr zeroTodo = Inr t
         \<and> map_of ([doc2, doc1] ! i) ''_id'' = Some (BObjectID oid)
         \<and> [doc2, doc1u] = [doc2, doc1][i := [doc2, doc1u] ! i]
         \<and> map_of ([doc2, doc1u] ! i)
             = (map_of ([doc2, doc1] ! i))(''title'' \<mapsto> BString (todo.Title t),
                                           ''completed'' \<mapsto> BString (todo.Completed t))
         \<and> map_of ([doc2, doc1u] ! i) ''_id'' = map_of ([doc2, doc1] ! i) ''_id''
         \<and> map_of ([doc2, doc1u] ! i) ''createAt'' = map_of ([doc2, doc1] ! i) ''createAt'')"
  using C7_update_frame [OF updateTodo_st1] updateTodo_st1 by (simp add: st1_def)

subsection \<open>Listing the records\<close>

text \<open>
  Claim C8. When the find succeeds and the cursor decodes the records, the answer is 200
  with the envelope that holds under \<^verbatim>\<open>data\<close> one view per record, in order. In each
  view the id is the hex form of the record's id: 24 lower-case hexadecimal digits that
  \<^verbatim>\<open>ObjectIDFromHex\<close> reads back as that id, and the only such text. Title and
  creation time are the record's, and \<^verbatim>\<open>completed\<close> is a Go string, the text
  \<^verbatim>\<open>true\<close> when the record's flag is set and the text \<^verbatim>\<open>false\<close> when it is not.
\<close>

theorem C8_list_views:
  assumes "storeErr e = None" and "cursorAll e (docs st) = Inr todos"
  shows "fetchTodos e st =
           (Response StatusOK [(''data'', GTodoList (todoList todos))],
            st\<lparr>calls := calls st @ [CallFind]\<rparr>)
       \<and> length (todoList todos) = length todos
       \<and> (\<forall>i < length todos.
             todo.ID (todoList todos ! i) = Hex (todoModel.ID (todos ! i))
           \<and> length (todo.ID (todoList todos ! i)) = 24
           \<and> set (todo.ID (todoList todos ! i)) \<subseteq> set ''0123456789abcdef''
           \<and> ObjectIDFromHex (todo.ID (todoList todos ! i)) = Some (todoModel.ID (todos ! i))
           \<and> (\<forall>s. length s = 24 \<and> set s \<subseteq> set ''0123456789abcdef''
                  \<and> ObjectIDFromHex s = Some (todoModel.ID (todos ! i))
                \<longrightarrow> s = todo.ID (todoList todos ! i))
           \<and> todo.Title (todoList todos ! i) = todoModel.Title (todos ! i)
           \<and> todo.CreatedAt (todoList todos ! i) = todoModel.CreatedAt (todos ! i)
           \<and> (todo.Completed (todoList todos ! i) = ''true''
                \<or> todo.Completed (todoList todos ! i) = ''false'')
           \<and> (todo.Completed (todoList todos ! i) = ''true'')
                = todoModel.Completed (todos ! i))"
proof -
  have digits: "set ''0123456789abcdef'' = set hextable"
    by (simp add: hextable_def)
  have answer: "fetchTodos e st =
           (Response StatusOK [(''data'', GTodoList (todoList todos))],
            st\<lparr>calls := calls st @ [CallFind]\<rparr>)"
    using assms by (simp add: fetchTodos_def Find_def)
  have view: "todoList todos ! i = toView (todos ! i)" if "i < length todos" for i
    using that by (simp add: todoList_map)
  have id: "length (Hex w) = 24 \<and> set (Hex w) \<subseteq> set ''0123456789abcdef''
      \<and> ObjectIDFromHex (Hex w) = Some w
      \<and> (\<forall>s. length s = 24 \<and> set s \<subseteq> set ''0123456789abcdef'' \<and> ObjectIDFromHex s = Some w
            \<longrightarrow> s = Hex w)" for w
    unfolding digits using length_Hex Hex_chars ObjectIDFromHex_Hex Hex_unique by blast
  have tv: "todo.ID (toView r) = Hex (todoModel.ID r)
      \<and> length (todo.ID (toView r)) = 24
      \<and> set (todo.ID (toView r)) \<subseteq> set ''0123456789abcdef''
      \<and> ObjectIDFromHex (todo.ID (toView r)) = Some (todoModel.ID r)
      \<and> (\<forall>s. length s = 24 \<and> set s \<subseteq> set ''0123456789abcdef''
             \<and> ObjectIDFromHex s = Some (todoModel.ID r)
           \<longrightarrow> s = todo.ID (toView r))
      \<and> todo.Title (toView r) = todoModel.Title r
      \<and> todo.CreatedAt (toView r) = todoModel.CreatedAt r
      \<and> (todo.Completed (toView r) = ''true'' \<or> todo.Completed (toView r) = ''false'')
      \<and> (todo.Completed (toView r) = ''true'') = todoModel.Completed r" for r
    using id [of "todoModel.ID r"] by (simp add: toView_def FormatBool_def)
  have "length (todoList todos) = length todos"
    by (simp add: todoList_map)
  moreover have "\<forall>i < length todos.
             todo.ID (todoList todos ! i) = Hex (todoModel.ID (todos ! i))
           \<and> length (todo.ID (todoList todos ! i)) = 24
           \<and> set (todo.ID (todoList todos ! i)) \<subseteq> set ''0123456789abcdef''
           \<and> ObjectIDFromHex (todo.ID (todoList todos ! i)) = Some (todoModel.ID (todos ! i))
           \<and> (\<forall>s. length s = 24 \<and> set s \<subseteq> set ''0123456789abcdef''
                  \<and> ObjectIDFromHex s = Some (todoModel.ID (todos ! i))
                \<longrightarrow> s = todo.ID (todoList todos ! i))
           \<and> todo.Title (todoList todos ! i) = todoModel.Title (todos ! i)
           \<and> todo.CreatedAt (todoList todos ! i) = todoModel.CreatedAt (todos ! i)
           \<and> (todo.Completed (todoList todos ! i) = ''true''
                \<or> todo.Completed (todoList todos ! i) = ''false'')
           \<and> (todo.Completed (todoList todos ! i) = ''true'')
                = todoModel.Completed (todos ! i)"
  proof (intro allI impI)
    fix i
    assume "i < length todos"
    then have v: "todoList todos ! i = toView (todos ! i)" by (rule view)
    show "todo.ID (todoList todos ! i) = Hex (todoModel.ID (todos ! i))
           \<and> length (todo.ID (todoList todos ! i)) = 24
           \<and> set (todo.ID (todoList todos ! i)) \<subseteq> set ''0123456789abcdef''
           \<and> ObjectIDFromHex (todo.ID (todoList todos ! i)) = Some (todoModel.ID (todos ! i))
           \<and> (\<forall>s. length s = 24 \<and> set s \<subseteq> set ''0123456789abcdef''
                  \<and> ObjectIDFromHex s = Some (todoModel.ID (todos ! i))
                \<longrightarrow> s = todo.ID (todoList todos ! i))
           \<and> todo.Title (todoList todos ! i) = todoModel.Title (todos ! i)
           \<and> todo.CreatedAt (todoList todos ! i) = todoModel.CreatedAt (todos ! i)
           \<and> (todo.Completed (todoList todos ! i) = ''true''
                \<or> todo.Completed (todoList todos ! i) = ''false'')
           \<and> (todo.Completed (todoList todos ! i) = ''true'')
                = todoModel.Completed (todos ! i)"
      unfolding v by (rule tv)
  qed
  ultimately show ?thesis using answer by blast
qed

theorem C8_list_views_witness:
  "storeErr env0 = None
   \<and> fetchTodos env0 st1 =
       (Response StatusOK
          [(''data'', GTodoList
             [\<lparr> todo.ID = ''65a1b2c3d4e5f60718293a4a'', todo.Title = ''walk dog'',
                 todo.Completed = ''true'', todo.CreatedAt = 1700000000001000000 \<rparr>,
              \<lparr> todo.ID = ''65a1b2c3d4e5f60718293a4b'', todo.Title = ''buy milk'',
                 todo.Completed = ''false'', todo.CreatedAt = 1700000000123000000 \<rparr>])],
        st1\<lparr>calls := [CallFind]\<rparr>)
   \<and> ObjectIDFromHex ''65a1b2c3d4e5f60718293a4a'' = Some 0x65a1b2c3d4e5f60718293a4a
   \<and> ObjectIDFromHex ''65a1b2c3d4e5f60718293a4b'' = Some 0x65a1b2c3d4e5f60718293a4b"
proof -
  have b: "cursorAll env0 (docs st1) =
      Inr [\<lparr> todoModel.ID = 0x65a1b2c3d4e5f60718293a4a, todoModel.Title = ''walk dog'',
             todoModel.Completed = True, todoModel.CreatedAt = 1700000000001000000 \<rparr>,
           \<lparr> todoModel.ID = 0x65a1b2c3d4e5f60718293a4b, todoModel.Title = ''buy milk'',
             todoModel.Completed = False, todoModel.CreatedAt = 1700000000123000000 \<rparr>]"
    by (simp add: env0_fields st1_def decodeAll_st1 del: decodeAll.simps)
  note r = C8_list_views [OF env0_fields(1) b]
  have f: "fetchTodos env0 st1 =
       (Response StatusOK
          [(''data'', GTodoList
             [\<lparr> todo.ID = ''65a1b2c3d4e5f60718293a4a'', todo.Title = ''walk dog'',
                 todo.Completed = ''true'', todo.CreatedAt = 1700000000001000000 \<rparr>,
              \<lparr> todo.ID = ''65a1b2c3d4e5f60718293a4b'', todo.Title = ''buy milk'',
                 todo.Completed = ''false'', todo.CreatedAt = 1700000000123000000 \<rparr>])],
        st1\<lparr>calls := [CallFind]\<rparr>)"
    using r [THEN conjunct1]
    by (simp add: todoList_map toView_def FormatBool_def Hex_a Hex_b st1_def)
  have "ObjectIDFromHex ''65a1b2c3d4e5f60718293a4a'' = Some 0x65a1b2c3d4e5f60718293a4a"
    using r [THEN conjunct2, THEN conjunct2, rule_format, of 0]
    by (simp add: todoList_map toView_def Hex_a)
  moreover have "ObjectIDFromHex ''65a1b2c3d4e5f60718293a4b'' = Some 0x65a1b2c3d4e5f60718293a4b"
    using r [THEN conjunct2, THEN conjunct2, rule_format, of 1]
    by (simp add: todoList_map toView_def Hex_b)
  ultimately show ?thesis using f env0_fields(1) by simp
qed

subsection \<open>The order of shutdown\<close>

text \<open>
  Claim C9. When start-up succeeds, the program waits for the interrupt and then
  disconnects the store client before it shuts the server down, with a context of five
  seconds. In every run, whatever start-up does, a shutdown of the server has that
  timeout, has the disconnect before it and has none after it.
\<close>

theorem C9_shutdown_order:
  "(c \<and> p \<longrightarrow>
      (\<exists>evs. program c p =
         evs @ [AwaitInterrupt, Log ''shutting down server...'', Disconnect,
                Log ''Closed MongoDB connection'', Shutdown 5,
                Log ''server gracefully stopped'']))
   \<and> (\<forall>evs t rest. program c p = evs @ Shutdown t # rest \<longrightarrow>
         t = 5 \<and> Disconnect \<in> set evs \<and> Disconnect \<notin> set rest)"
proof (cases "c \<and> p")
  case True
  then have run: "program c p =
      [Connect, Ping, Log ''Successfully connected to MongoDB'', GoListenAndServe,
       AwaitInterrupt, Log ''shutting down server...'', Disconnect,
       Log ''Closed MongoDB connection'', Shutdown 5, Log ''server gracefully stopped'']"
    by (simp add: program_def init_def main_def)
  have "\<exists>evs. program c p =
         evs @ [AwaitInterrupt, Log ''shutting down server...'', Disconnect,
                Log ''Closed MongoDB connection'', Shutdown 5,
                Log ''server gracefully stopped'']"
    unfolding run by (rule exI [of _ "[Connect, Ping,
      Log ''Successfully connected to MongoDB'', GoListenAndServe]"]) simp
  moreover have "t = 5 \<and> Disconnect \<in> set evs \<and> Disconnect \<notin> set rest"
    if "program c p = evs @ Shutdown t # rest" for evs t rest
    using that unfolding run by (auto simp: Cons_eq_append_conv)
  ultimately show ?thesis by blast
next
  case False
  then have exited: "program c p = [Connect, Fatal ''Failed to connect to MongoDB'']
      \<or> program c p = [Connect, Ping, Fatal ''Failed to ping MongoDB'']"
    by (auto simp: program_def init_def)
  have "program c p \<noteq> evs @ Shutdown t # rest" for evs t rest
    using exited by (auto simp: Cons_eq_append_conv)
  with False show ?thesis by blast
qed

theorem C9_shutdown_order_witness:
  "program True True =
     [Connect, Ping, Log ''Successfully connected to MongoDB'', GoListenAndServe,
      AwaitInterrupt, Log ''shutting down server...'', Disconnect,
      Log ''Closed MongoDB connection''] @ Shutdown 5 # [Log ''server gracefully stopped'']
   \<and> Disconnect \<in> set [Connect, Ping, Log ''Successfully connected to MongoDB'',
        GoListenAndServe, AwaitInterrupt, Log ''shutting down server...'', Disconnect,
        Log ''Closed MongoDB connection'']
   \<and> Disconnect \<notin> set [Log ''server gracefully stopped'']"
proof -
  have a: "program True True =
     [Connect, Ping, Log ''Successfully connected to MongoDB'', GoListenAndServe,
      AwaitInterrupt, Log ''shutting down server...'', Disconnect,
      Log ''Closed MongoDB connection''] @ Shutdown 5 # [Log ''server gracefully stopped'']"
    by (simp add: program_def init_def main_def)
  from C9_shutdown_order [of True True] a show ?thesis by blast
qed

subsection \<open>A boolean under completed in a create request\<close>

text \<open>
  Claim C10, as the code has it. A POST request whose body is an object with a JSON
  boolean under \<^verbatim>\<open>completed\<close> is answered with the 400 envelope of the decoding
  failure, and the store is returned as it was. A body that decodes has under
  \<^verbatim>\<open>completed\<close> only strings and nulls (or has no such member): beside a string and
  an absent field, \<^verbatim>\<open>null\<close> is accepted too.
\<close>

theorem C10_completed_kinds:
  "((k, JBool b) \<in> set ms \<and> fieldOf k = Some FCompleted \<longrightarrow>
      (\<exists>err. createTodo e (Some (JObject ms)) st =
         (Response StatusBadRequest
            [(''message'', GString ''invalid request''), (''error'', GErrorText err)], st)))
   \<and> (Decode (parseTime e) (Some (JObject ms)) zeroTodo = Inr t
        \<and> (k, v) \<in> set ms \<and> fieldOf k = Some FCompleted \<longrightarrow>
      v = JNull \<or> (\<exists>s. v = JString s))"
proof (intro conjI impI)
  assume a: "(k, JBool b) \<in> set ms \<and> fieldOf k = Some FCompleted"
  have "\<not> (\<exists>t'. decodeMembers (parseTime e) ms zeroTodo None = Inr t')"
    using decodeMembers_completed [of "parseTime e" ms zeroTodo None _ k "JBool b"] a by auto
  then obtain err where "Decode (parseTime e) (Some (JObject ms)) zeroTodo = Inl err"
    by (cases "decodeMembers (parseTime e) ms zeroTodo None") (auto simp: Decode_def)
  then show "\<exists>err. createTodo e (Some (JObject ms)) st =
         (Response StatusBadRequest
            [(''message'', GString ''invalid request''), (''error'', GErrorText err)], st)"
    by (simp add: createTodo_def)
next
  assume "Decode (parseTime e) (Some (JObject ms)) zeroTodo = Inr t
        \<and> (k, v) \<in> set ms \<and> fieldOf k = Some FCompleted"
  then show "v = JNull \<or> (\<exists>s. v = JString s)"
    using decodeMembers_completed [of "parseTime e" ms zeroTodo None t k v]
    by (simp add: Decode_def)
qed

theorem C10_completed_kinds_witness:
  "(''completed'', JBool True)
     \<in> set [(''title'', JString ''buy milk''), (''completed'', JBool True)]
   \<and> fieldOf ''completed'' = Some FCompleted
   \<and> (\<exists>err. createTodo env0 milkDone st1 =
         (Response StatusBadRequest
            [(''message'', GString ''invalid request''), (''error'', GErrorText err)], st1))
   \<and> Decode (parseTime env0) milkDoneStr zeroTodo
       = Inr (zeroTodo\<lparr>todo.Title := ''buy milk'', todo.Completed := ''true''\<rparr>)
   \<and> (''completed'', JString ''true'')
       \<in> set [(''title'', JString ''buy milk''), (''completed'', JString ''true'')]
   \<and> (JString ''true'' = JNull \<or> (\<exists>s. JString ''true'' = JString s))"
proof -
  have a: "(''completed'', JBool True)
      \<in> set [(''title'', JString ''buy milk''), (''completed'', JBool True)]"
    by simp
  have b: "(''completed'', JString ''true'')
      \<in> set [(''title'', JString ''buy milk''), (''completed'', JString ''true'')]"
    by simp
  have d: "Decode (parseTime env0)
        (Some (JObject [(''title'', JString ''buy milk''), (''completed'', JString ''true'')]))
        zeroTodo
       = Inr (zeroTodo\<lparr>todo.Title := ''buy milk'', todo.Completed := ''true''\<rparr>)"
    by (rule Decode_string_body)
  from C10_completed_kinds [of "''completed''" True
      "[(''title'', JString ''buy milk''), (''completed'', JBool True)]" env0 st1]
    a fieldOf_completed
  have 1: "\<exists>err. createTodo env0 milkDone st1 =
         (Response StatusBadRequest
            [(''message'', GString ''invalid request''), (''error'', GErrorText err)], st1)"
    by (simp add: milkDone_def)
  from C10_completed_kinds [of "''completed''" _
      "[(''title'', JString ''buy milk''), (''completed'', JString ''true'')]" env0
      _ "zeroTodo\<lparr>todo.Title := ''buy milk'', todo.Completed := ''true''\<rparr>" "JString ''true''"]
    b d fieldOf_completed
  have 2: "JString ''true'' = JNull \<or> (\<exists>s. JString ''true'' = JString s)"
    by blast
  from 1 2 a b d fieldOf_completed show ?thesis by (simp add: milkDoneStr_def)
qed

text \<open>
  The claim as stated says that only a string or an absent field decodes. The body
  \<^verbatim>\<open>{"title":"buy milk","completed":null}\<close> has the field, not as a string, and it
  decodes: the record is created.
\<close>

theorem C10_null_completed_counterexample:
  "milkNull = Some (JObject [(''title'', JString ''buy milk''), (''completed'', JNull)])
   \<and> Decode (parseTime env0) milkNull zeroTodo = Inr (zeroTodo\<lparr>todo.Title := ''buy milk''\<rparr>)
   \<and> createTodo env0 milkNull st0 =
       (Response StatusCreated
          [(''message'', GString ''todo created successfully''),
           (''todo_id'', GInsertedID (BObjectID 0x65a1b2c3d4e5f60718293a4d))], stC)"
  by (simp add: createTodo_def Decode_milkNull InsertOne_def marshalTodoModel_def env0_fields
      NilObjectID_def st0_def stC_def docNew_def)
    (simp add: milkNull_def)

end
